theory Spec2Isabelle
  imports Complex_Main "HOL-Library.AList"
begin

section \<open>Values of a table\<close>

text \<open>
  The pipeline works on pandas tables. A cell of a column is a missing marker
  (\<open>NaN\<close> or \<open>None\<close>: \<open>pd.isna\<close> is true on both, and the code never tells them
  apart), a number, or a text. A number is an integer or a float; a float is a
  finite value (the floats are rationals, so every statement about all rationals
  covers all finite floats) or one of the two infinities. Boolean columns are
  outside the model.
\<close>

datatype fl = Fin rat | PInf | NInf

datatype number = I int | F fl

datatype cell = Missing | Num number | Str string

datatype error = OverflowError | ValueError | OSError | LibraryError

text \<open>
  Library routines that the repository calls but does not define are parameters
  of the model: the parser behind \<open>pd.to_numeric\<close> for one text entry
  (\<open>None\<close>: the entry is not a number), \<open>str\<close> of a float, and the built-in
  \<open>int\<close> on a text (\<open>None\<close>: it raises \<open>ValueError\<close>).
\<close>

record pylib =
  parse_number :: "string \<Rightarrow> number option"
  float_str :: "fl \<Rightarrow> string"
  int_of_str :: "string \<Rightarrow> int option"

definition isna :: "cell \<Rightarrow> bool" where
  "isna c = (c = Missing)"

text \<open>\<open>int(x)\<close> on a float truncates toward zero.\<close>

definition trunc :: "rat \<Rightarrow> int" where
  "trunc q = (if 0 \<le> q then \<lfloor>q\<rfloor> else \<lceil>q\<rceil>)"

fun py_int :: "pylib \<Rightarrow> cell \<Rightarrow> error + int" where
  "py_int L (Num (I i)) = Inr i"
| "py_int L (Num (F (Fin q))) = Inr (trunc q)"
| "py_int L (Num (F PInf)) = Inl OverflowError"
| "py_int L (Num (F NInf)) = Inl OverflowError"
| "py_int L (Str s) = (case int_of_str L s of None \<Rightarrow> Inl ValueError | Some i \<Rightarrow> Inr i)"
| "py_int L Missing = Inl ValueError"

section \<open>utils.py\<close>

subsection \<open>dry_wet_from_month\<close>

definition dry_wet_from_month :: "pylib \<Rightarrow> cell \<Rightarrow> error + cell" where
  "dry_wet_from_month L m =
     (if isna m then Inr Missing
      else case py_int L m of
             Inl e \<Rightarrow> Inl e
           | Inr i \<Rightarrow>
               if i \<in> set [11, 12, 1, 2, 3, 4] then Inr (Str ''Wet'')
               else if i \<in> set [5, 6, 7, 8, 9, 10] then Inr (Str ''Dry'')
               else Inr Missing)"

subsection \<open>Tables\<close>

text \<open>
  A table has an index (here its number of rows) and named columns, in order.
  Assigning a column replaces one of that name where it stands or appends a new
  one; a scalar is broadcast over the index.
\<close>

record table =
  nrows :: nat
  columns :: "(string \<times> cell list) list"

definition has_column :: "table \<Rightarrow> string \<Rightarrow> bool" where
  "has_column df c = (map_of (columns df) c \<noteq> None)"

text \<open>
  Reading a column. Every read in the code follows a membership test or an
  assignment of that column, so the \<open>KeyError\<close> of an absent name never occurs.
\<close>

definition column :: "table \<Rightarrow> string \<Rightarrow> cell list" where
  "column df c = (case map_of (columns df) c of Some xs \<Rightarrow> xs | None \<Rightarrow> [])"

definition set_column :: "table \<Rightarrow> string \<Rightarrow> cell list \<Rightarrow> table" where
  "set_column df c xs = df\<lparr>columns := AList.update c xs (columns df)\<rparr>"

definition set_scalar :: "table \<Rightarrow> string \<Rightarrow> cell \<Rightarrow> table" where
  "set_scalar df c v = set_column df c (replicate (nrows df) v)"

definition drop_column :: "table \<Rightarrow> string \<Rightarrow> table" where
  "drop_column df c = df\<lparr>columns := AList.delete c (columns df)\<rparr>"

definition wf_table :: "table \<Rightarrow> bool" where
  "wf_table df = (list_all (\<lambda>kv. length (snd kv) = nrows df) (columns df))"

subsection \<open>coerce_numeric\<close>

text \<open>
  \<open>pd.to_numeric(col, errors="coerce")\<close>: a text entry is parsed, one that does not
  parse becomes missing, numbers and missing entries stay. The column then gets
  one dtype: integers stay integers only when every entry is an integer,
  otherwise they are converted to floats.
\<close>

definition to_numeric_cell :: "pylib \<Rightarrow> cell \<Rightarrow> cell" where
  "to_numeric_cell L c =
     (case c of
        Str s \<Rightarrow> (case parse_number L s of None \<Rightarrow> Missing | Some n \<Rightarrow> Num n)
      | _ \<Rightarrow> c)"

definition is_int_cell :: "cell \<Rightarrow> bool" where
  "is_int_cell c = (case c of Num (I i) \<Rightarrow> True | _ \<Rightarrow> False)"

definition upcast :: "cell \<Rightarrow> cell" where
  "upcast c = (case c of Num (I i) \<Rightarrow> Num (F (Fin (of_int i))) | _ \<Rightarrow> c)"

definition unify_dtype :: "cell list \<Rightarrow> cell list" where
  "unify_dtype xs = (if list_all is_int_cell xs then xs else map upcast xs)"

definition to_numeric :: "pylib \<Rightarrow> cell list \<Rightarrow> cell list" where
  "to_numeric L xs = unify_dtype (map (to_numeric_cell L) xs)"

fun coerce_numeric :: "pylib \<Rightarrow> table \<Rightarrow> string list \<Rightarrow> table" where
  "coerce_numeric L df [] = df"
| "coerce_numeric L df (c # cols) =
     coerce_numeric L
       (if has_column df c then set_column df c (to_numeric L (column df c)) else df) cols"

subsection \<open>standardise_dataset1\<close>

text \<open>Text is ASCII; \<open>lower\<close> and \<open>strip\<close> are those of Python on ASCII.\<close>

definition lower_char :: "char \<Rightarrow> char" where
  "lower_char c =
     (case map_of (zip ''ABCDEFGHIJKLMNOPQRSTUVWXYZ'' ''abcdefghijklmnopqrstuvwxyz'') c of
        Some d \<Rightarrow> d
      | None \<Rightarrow> c)"

definition is_space :: "char \<Rightarrow> bool" where
  "is_space c = ((of_char c :: nat) \<in> set [9, 10, 11, 12, 13, 28, 29, 30, 31, 32])"

definition lower :: "string \<Rightarrow> string" where
  "lower s = map lower_char s"

definition strip :: "string \<Rightarrow> string" where
  "strip s = rev (dropWhile is_space (rev (dropWhile is_space s)))"

fun str_nat :: "nat \<Rightarrow> string" where
  "str_nat n =
     (if n < 10 then [''0123456789'' ! n]
      else str_nat (n div 10) @ [''0123456789'' ! (n mod 10)])"

definition str_int :: "int \<Rightarrow> string" where
  "str_int i = (if i < 0 then CHR ''-'' # str_nat (nat (- i)) else str_nat (nat i))"

text \<open>\<open>astype(str)\<close> on one entry; a missing entry reads \<open>nan\<close>.\<close>

definition py_str :: "pylib \<Rightarrow> cell \<Rightarrow> string" where
  "py_str L c =
     (case c of
        Missing \<Rightarrow> ''nan''
      | Num (I i) \<Rightarrow> str_int i
      | Num (F x) \<Rightarrow> float_str L x
      | Str s \<Rightarrow> s)"

definition season_codes :: "(string \<times> string) list" where
  "season_codes = [(''0'', ''Dry''), (''1'', ''Wet''), (''dry'', ''Dry''), (''wet'', ''Wet'')]"

text \<open>One entry of \<open>df["season"].astype(str).str.lower().str.strip().map({...})\<close>.\<close>

definition season_from_text :: "pylib \<Rightarrow> cell \<Rightarrow> cell" where
  "season_from_text L c =
     (case map_of season_codes (strip (lower (py_str L c))) of
        None \<Rightarrow> Missing
      | Some v \<Rightarrow> Str v)"

text \<open>\<open>Series.map(f)\<close> with a function that may raise: the first exception ends it.\<close>

fun map_series :: "(cell \<Rightarrow> error + cell) \<Rightarrow> cell list \<Rightarrow> error + cell list" where
  "map_series f [] = Inr []"
| "map_series f (x # xs) =
     (case f x of
        Inl e \<Rightarrow> Inl e
      | Inr y \<Rightarrow> (case map_series f xs of Inl e \<Rightarrow> Inl e | Inr ys \<Rightarrow> Inr (y # ys)))"

text \<open>\<open>dw.where(dw.notna(), other)\<close>, both on the index of the table.\<close>

definition where_notna :: "cell list \<Rightarrow> cell list \<Rightarrow> cell list" where
  "where_notna dw other = map2 (\<lambda>d o'. if \<not> isna d then d else o') dw other"

definition standardise_dataset1 :: "pylib \<Rightarrow> table \<Rightarrow> error + table" where
  "standardise_dataset1 L df0 =
     (let df = coerce_numeric L df0
                 [''risk'', ''reward'', ''seconds_after_rat_arrival'',
                  ''hours_after_sunset'', ''month''];
          df1 = (if has_column df ''season''
                 then set_column df ''season_dw'' (map (season_from_text L) (column df ''season''))
                 else set_scalar df ''season_dw'' Missing)
      in case (if has_column df1 ''month''
               then (case map_series (dry_wet_from_month L) (column df1 ''month'') of
                       Inl e \<Rightarrow> Inl e
                     | Inr dw \<Rightarrow>
                         Inr (set_column df1 ''season_dw''
                                (where_notna dw (column df1 ''season_dw''))))
               else Inr df1) of
           Inl e \<Rightarrow> Inl e
         | Inr df2 \<Rightarrow>
             Inr (drop_column (set_column df2 ''season'' (column df2 ''season_dw''))
                    ''season_dw''))"

definition standardise_dataset2 :: "pylib \<Rightarrow> table \<Rightarrow> table" where
  "standardise_dataset2 L df =
     coerce_numeric L df
       [''hours_after_sunset'', ''bat_landing_number'', ''food_availability'',
        ''rat_minutes'', ''rat_arrival_number'', ''month'']"

section \<open>models.py\<close>

text \<open>
  A float result of a statistical routine; \<open>None\<close> is \<open>NaN\<close>.
\<close>

type_synonym pyfloat = "fl option"

text \<open>
  \<open>pd.crosstab(a, b)\<close>: the frequency table of the pairs of entries of two series
  on the same index. Its row labels are the values of the first series, its column
  labels those of the second (here in order of first appearance; pandas sorts
  them), and a row with a missing entry in either series is left out.
\<close>

record crosstab_t =
  row_labels :: "cell list"
  col_labels :: "cell list"
  freq :: "cell \<Rightarrow> cell \<Rightarrow> nat"

definition notna_pairs :: "cell list \<Rightarrow> cell list \<Rightarrow> (cell \<times> cell) list" where
  "notna_pairs a b = filter (\<lambda>p. \<not> isna (fst p) \<and> \<not> isna (snd p)) (zip a b)"

definition crosstab :: "cell list \<Rightarrow> cell list \<Rightarrow> crosstab_t" where
  "crosstab a b =
     (let ps = notna_pairs a b
      in \<lparr>row_labels = remdups (map fst ps),
          col_labels = remdups (map snd ps),
          freq = (\<lambda>r c. count_list ps (r, c))\<rparr>)"

definition row_total :: "crosstab_t \<Rightarrow> cell \<Rightarrow> nat" where
  "row_total ct r = sum_list (map (freq ct r) (col_labels ct))"

definition col_total :: "crosstab_t \<Rightarrow> cell \<Rightarrow> nat" where
  "col_total ct c = sum_list (map (\<lambda>r. freq ct r c) (row_labels ct))"

datatype test_result =
    Chi2Result pyfloat pyfloat int crosstab_t
  | MWResult pyfloat pyfloat nat nat
  | KWResult pyfloat pyfloat

text \<open>
  The routines of \<open>scipy.stats\<close> are parameters: each returns its numbers or raises.
\<close>

record scipy =
  chi2_contingency :: "crosstab_t \<Rightarrow> error + (pyfloat \<times> pyfloat \<times> int)"
  mannwhitneyu :: "cell list \<Rightarrow> cell list \<Rightarrow> error + (pyfloat \<times> pyfloat)"
  kruskal_h :: "cell list list \<Rightarrow> error + (pyfloat \<times> pyfloat)"

definition chi_square :: "scipy \<Rightarrow> cell list \<Rightarrow> cell list \<Rightarrow> error + test_result" where
  "chi_square S series_a series_b =
     (let ct = crosstab series_a series_b
      in case chi2_contingency S ct of
           Inl e \<Rightarrow> Inl e
         | Inr (chi2, p, dof) \<Rightarrow> Inr (Chi2Result chi2 p dof ct))"

definition mann_whitney :: "scipy \<Rightarrow> cell list \<Rightarrow> cell list \<Rightarrow> error + test_result" where
  "mann_whitney S a b =
     (case mannwhitneyu S a b of
        Inl e \<Rightarrow> Inl e
      | Inr (u, p) \<Rightarrow> Inr (MWResult u p (length a) (length b)))"

definition kruskal :: "scipy \<Rightarrow> cell list list \<Rightarrow> error + test_result" where
  "kruskal S groups =
     (case kruskal_h S groups of
        Inl e \<Rightarrow> Inl e
      | Inr (h, p) \<Rightarrow> Inr (KWResult h p))"

section \<open>eda.py\<close>

subsection \<open>The world of the run\<close>

text \<open>
  What the run changes outside its tables: the figures that pyplot holds open
  (the last one is the current figure), the files written, the directories made.
  Calls that reach the file system or the plotting library may raise; whether they
  do is a parameter, and so are the content of the two input files and the mean of
  a column.
\<close>

record world =
  figures :: nat
  files :: "string list"
  dirs :: "string list"

datatype plot_call =
    GroupedBar string "cell list" "cell list"
  | GroupedLine "cell list" "cell list"
  | Scatter "cell list" "cell list"

record sys =
  read_csv :: "string \<Rightarrow> error + table"
  series_mean :: "cell list \<Rightarrow> pyfloat"
  plot_ok :: "plot_call \<Rightarrow> bool"
  makedirs_ok :: "string \<Rightarrow> bool"
  tight_layout_ok :: bool
  savefig_ok :: "string \<Rightarrow> bool"
  write_ok :: "string \<Rightarrow> bool"

type_synonym 'a io = "world \<Rightarrow> (error + 'a) \<times> world"

definition and_then :: "unit io \<Rightarrow> unit io \<Rightarrow> unit io" where
  "and_then m k w = (case m w of (Inl e, w') \<Rightarrow> (Inl e, w') | (Inr u, w') \<Rightarrow> k w')"

text \<open>\<open>os.path.join\<close> and \<open>os.path.dirname\<close> of \<open>posixpath\<close>.\<close>

definition path_join :: "string \<Rightarrow> string \<Rightarrow> string" where
  "path_join a b =
     (if b \<noteq> [] \<and> hd b = CHR ''/'' then b
      else if a = [] \<or> last a = CHR ''/'' then a @ b
      else a @ ''/'' @ b)"

definition dirname :: "string \<Rightarrow> string" where
  "dirname p =
     (let head = rev (dropWhile (\<lambda>c. c \<noteq> CHR ''/'') (rev p))
      in if head \<noteq> [] \<and> \<not> list_all (\<lambda>c. c = CHR ''/'') head
         then rev (dropWhile (\<lambda>c. c = CHR ''/'') (rev head))
         else head)"

text \<open>
  \<open>plt.gcf()\<close> opens a figure when none is open; \<open>plt.close()\<close> closes the current
  figure; a plot of a table opens a new figure.
\<close>

definition gcf :: "world \<Rightarrow> world" where
  "gcf w = (if figures w = 0 then w\<lparr>figures := 1\<rparr> else w)"

definition plt_close :: "world \<Rightarrow> world" where
  "plt_close w = w\<lparr>figures := figures w - 1\<rparr>"

definition plot :: "sys \<Rightarrow> plot_call \<Rightarrow> unit io" where
  "plot Y call w =
     (if plot_ok Y call then (Inr (), w\<lparr>figures := figures w + 1\<rparr>)
      else (Inl LibraryError, w))"

subsection \<open>safe_savefig\<close>

definition safe_savefig :: "sys \<Rightarrow> string \<Rightarrow> unit io" where
  "safe_savefig Y path w =
     (if \<not> makedirs_ok Y (dirname path) then (Inl OSError, w)
      else let w1 = w\<lparr>dirs := dirs w @ [dirname path]\<rparr>;
               w2 = gcf w1
           in if \<not> tight_layout_ok Y then (Inl LibraryError, w2)
              else if \<not> savefig_ok Y path then (Inl OSError, w2)
              else (Inr (), plt_close (w2\<lparr>files := files w2 @ [path]\<rparr>)))"

subsection \<open>load_clean\<close>

definition load_clean :: "pylib \<Rightarrow> sys \<Rightarrow> string \<Rightarrow> error + table \<times> table" where
  "load_clean L Y rootdir =
     (case read_csv Y (path_join rootdir ''dataset1(1).csv'') of
        Inl e \<Rightarrow> Inl e
      | Inr r1 \<Rightarrow>
          (case read_csv Y (path_join rootdir ''dataset2(1).csv'') of
             Inl e \<Rightarrow> Inl e
           | Inr r2 \<Rightarrow>
               (case standardise_dataset1 L r1 of
                  Inl e \<Rightarrow> Inl e
                | Inr d1 \<Rightarrow> Inr (d1, standardise_dataset2 L r2))))"

subsection \<open>make_figures\<close>

definition has_columns :: "table \<Rightarrow> string list \<Rightarrow> bool" where
  "has_columns df cs = list_all (has_column df) cs"

definition figure_block :: "sys \<Rightarrow> bool \<Rightarrow> plot_call \<Rightarrow> string \<Rightarrow> unit io" where
  "figure_block Y gate call path w =
     (if gate then and_then (plot Y call) (safe_savefig Y path) w else (Inr (), w))"

definition make_figures :: "sys \<Rightarrow> table \<Rightarrow> table \<Rightarrow> string \<Rightarrow> unit io" where
  "make_figures Y d1 d2 fig_dir =
     and_then
       (figure_block Y (has_columns d1 [''season'', ''risk''])
          (GroupedBar ''mean'' (column d1 ''season'') (column d1 ''risk''))
          (path_join fig_dir ''risk_by_season.png''))
    (and_then
       (figure_block Y (has_columns d1 [''season'', ''reward''])
          (GroupedBar ''mean'' (column d1 ''season'') (column d1 ''reward''))
          (path_join fig_dir ''reward_by_season.png''))
    (and_then
       (figure_block Y (has_columns d1 [''risk'', ''seconds_after_rat_arrival''])
          (GroupedBar ''median'' (column d1 ''risk'') (column d1 ''seconds_after_rat_arrival''))
          (path_join fig_dir ''sec_after_rat_by_risk.png''))
    (and_then
       (figure_block Y (has_columns d1 [''risk'', ''hours_after_sunset''])
          (GroupedBar ''mean'' (column d1 ''risk'') (column d1 ''hours_after_sunset''))
          (path_join fig_dir ''hours_after_sunset_by_risk.png''))
    (and_then
       (figure_block Y (has_columns d2 [''month'', ''rat_arrival_number''])
          (GroupedLine (column d2 ''month'') (column d2 ''rat_arrival_number''))
          (path_join fig_dir ''rat_arrivals_by_month.png''))
    (and_then
       (figure_block Y (has_columns d2 [''hours_after_sunset'', ''rat_arrival_number''])
          (Scatter (column d2 ''hours_after_sunset'') (column d2 ''rat_arrival_number''))
          (path_join fig_dir ''rat_arrivals_vs_hours.png''))
       (figure_block Y (has_columns d2 [''food_availability'', ''rat_arrival_number''])
          (Scatter (column d2 ''food_availability'') (column d2 ''rat_arrival_number''))
          (path_join fig_dir ''rat_arrivals_vs_food.png'')))))))"

subsection \<open>run_all\<close>

text \<open>
  \<open>fillna(v)\<close> on a numeric column: the value takes the dtype of the column, a float
  unless every entry is an integer.
\<close>

definition fillna :: "number \<Rightarrow> cell list \<Rightarrow> cell list" where
  "fillna v xs =
     (let ys = map (\<lambda>c. if isna c then Num v else c) xs
      in if list_all is_int_cell xs then ys else map upcast ys)"

definition dropna :: "cell list \<Rightarrow> cell list" where
  "dropna xs = filter (\<lambda>c. \<not> isna c) xs"

text \<open>\<open>col == k\<close> on one entry; a missing entry or a text is not equal to a number.\<close>

definition num_equals :: "cell \<Rightarrow> int \<Rightarrow> bool" where
  "num_equals c k =
     (case c of
        Num (I i) \<Rightarrow> i = k
      | Num (F (Fin q)) \<Rightarrow> q = of_int k
      | _ \<Rightarrow> False)"

text \<open>\<open>df.loc[df[key] == k, val]\<close>.\<close>

definition loc_eq :: "table \<Rightarrow> string \<Rightarrow> int \<Rightarrow> string \<Rightarrow> cell list" where
  "loc_eq df key k val =
     map snd (filter (\<lambda>p. num_equals (fst p) k) (zip (column df key) (column df val)))"

text \<open>
  The groups of \<open>df.groupby(df[key])[val]\<close>, one for each value of the key that is
  not missing, each with its missing entries dropped.
\<close>

definition groups_by :: "table \<Rightarrow> string \<Rightarrow> string \<Rightarrow> cell list list" where
  "groups_by df key val =
     map (\<lambda>k. dropna (map snd (filter (\<lambda>p. fst p = k) (zip (column df key) (column df val)))))
       (remdups (dropna (column df key)))"

type_synonym tests_t = "string \<rightharpoonup> test_result"

definition chi2_step :: "scipy \<Rightarrow> table \<Rightarrow> tests_t \<Rightarrow> error + tests_t" where
  "chi2_step S d1 t =
     (if has_columns d1 [''risk'', ''reward'']
      then (case chi_square S (fillna (I (- 1)) (column d1 ''risk''))
                               (fillna (I (- 1)) (column d1 ''reward'')) of
              Inl e \<Rightarrow> Inl e
            | Inr r \<Rightarrow> Inr (t(''risk_vs_reward_chi2'' \<mapsto> r)))
      else Inr t)"

definition mw_step :: "scipy \<Rightarrow> table \<Rightarrow> tests_t \<Rightarrow> error + tests_t" where
  "mw_step S d1 t =
     (if has_columns d1 [''risk'', ''seconds_after_rat_arrival'']
      then (let a = dropna (loc_eq d1 ''risk'' 0 ''seconds_after_rat_arrival'');
                b = dropna (loc_eq d1 ''risk'' 1 ''seconds_after_rat_arrival'')
            in if length a > 3 \<and> length b > 3
               then (case mann_whitney S a b of
                       Inl e \<Rightarrow> Inl e
                     | Inr r \<Rightarrow> Inr (t(''sec_after_rat_by_risk_mw'' \<mapsto> r)))
               else Inr t)
      else Inr t)"

definition kw_step :: "scipy \<Rightarrow> table \<Rightarrow> tests_t \<Rightarrow> error + tests_t" where
  "kw_step S d2 t =
     (if has_column d2 ''month'' \<and> has_column d2 ''rat_arrival_number''
      then (let groups = groups_by d2 ''month'' ''rat_arrival_number''
            in if length groups > 1 \<and> list_all (\<lambda>g. length g > 2) groups
               then (case kruskal S groups of
                       Inl e \<Rightarrow> Inl e
                     | Inr r \<Rightarrow> Inr (t(''rat_arrivals_kruskal_by_month'' \<mapsto> r)))
               else Inr t)
      else Inr t)"

definition run_tests :: "scipy \<Rightarrow> table \<Rightarrow> table \<Rightarrow> error + tests_t" where
  "run_tests S d1 d2 =
     (case chi2_step S d1 Map.empty of
        Inl e \<Rightarrow> Inl e
      | Inr t1 \<Rightarrow>
          (case mw_step S d1 t1 of
             Inl e \<Rightarrow> Inl e
           | Inr t2 \<Rightarrow> kw_step S d2 t2))"

record summary =
  shapes :: "(nat \<times> nat) \<times> (nat \<times> nat)"
  means :: "string \<rightharpoonup> pyfloat"
  tests :: tests_t

definition shape :: "table \<Rightarrow> nat \<times> nat" where
  "shape df = (nrows df, length (columns df))"

definition mean_rates :: "sys \<Rightarrow> table \<Rightarrow> string \<rightharpoonup> pyfloat" where
  "mean_rates Y d1 =
     (let m0 = Map.empty;
          m1 = (if has_column d1 ''risk''
                then m0(''risk'' \<mapsto> series_mean Y (column d1 ''risk'')) else m0)
      in if has_column d1 ''reward''
         then m1(''reward'' \<mapsto> series_mean Y (column d1 ''reward'')) else m1)"

definition write_file :: "sys \<Rightarrow> string \<Rightarrow> unit io" where
  "write_file Y path w =
     (if write_ok Y path then (Inr (), w\<lparr>files := files w @ [path]\<rparr>) else (Inl OSError, w))"

text \<open>
  The run; its value is the summary that it exports.
\<close>

definition run_all :: "pylib \<Rightarrow> scipy \<Rightarrow> sys \<Rightarrow> string \<Rightarrow> summary io" where
  "run_all L S Y rootdir w =
     (case load_clean L Y rootdir of
        Inl e \<Rightarrow> (Inl e, w)
      | Inr (d1, d2) \<Rightarrow>
          (case make_figures Y d1 d2 (path_join rootdir ''figures'') w of
             (Inl e, w1) \<Rightarrow> (Inl e, w1)
           | (Inr u, w1) \<Rightarrow>
               (case run_tests S d1 d2 of
                  Inl e \<Rightarrow> (Inl e, w1)
                | Inr t \<Rightarrow>
                    (case and_then (write_file Y (path_join rootdir ''eda_summary.json''))
                            (write_file Y (path_join rootdir ''quick_metrics.txt'')) w1 of
                       (Inl e, w2) \<Rightarrow> (Inl e, w2)
                     | (Inr u', w2) \<Rightarrow>
                         (Inr \<lparr>shapes = (shape d1, shape d2),
                               means = mean_rates Y d1,
                               tests = t\<rparr>, w2)))))"

section \<open>A library instance and notions of the specification\<close>

definition digit_of :: "char \<Rightarrow> nat option" where
  "digit_of c = map_of (zip ''0123456789'' [0, 1, 2, 3, 4, 5, 6, 7, 8, 9]) c"

fun digits_value :: "nat \<Rightarrow> string \<Rightarrow> nat option" where
  "digits_value acc [] = Some acc"
| "digits_value acc (c # cs) =
     (case digit_of c of None \<Rightarrow> None | Some d \<Rightarrow> digits_value (10 * acc + d) cs)"

definition parse_unsigned :: "string \<Rightarrow> number option" where
  "parse_unsigned s =
     (let ip = takeWhile (\<lambda>c. c \<noteq> CHR ''.'') s;
          rest = dropWhile (\<lambda>c. c \<noteq> CHR ''.'') s
      in if ip = [] then None
         else case rest of
                [] \<Rightarrow> map_option (\<lambda>n. I (int n)) (digits_value 0 ip)
              | dot # fp \<Rightarrow>
                  (if fp = [] then None
                   else case (digits_value 0 ip, digits_value 0 fp) of
                          (Some a, Some b) \<Rightarrow>
                            Some (F (Fin (of_nat a + of_nat b / 10 ^ length fp)))
                        | _ \<Rightarrow> None))"

definition negate :: "number \<Rightarrow> number" where
  "negate n = (case n of I i \<Rightarrow> I (- i) | F (Fin q) \<Rightarrow> F (Fin (- q)) | F PInf \<Rightarrow> F NInf | F NInf \<Rightarrow> F PInf)"

definition parse_decimal :: "string \<Rightarrow> number option" where
  "parse_decimal s =
     (case s of
        [] \<Rightarrow> None
      | c # r \<Rightarrow> if c = CHR ''-'' then map_option negate (parse_unsigned r) else parse_unsigned s)"

definition print_float :: "fl \<Rightarrow> string" where
  "print_float x =
     (case x of
        PInf \<Rightarrow> ''inf''
      | NInf \<Rightarrow> ''-inf''
      | Fin q \<Rightarrow>
          (if q < 0 then ''-'' else '''') @ str_nat (nat \<lfloor>\<bar>q\<bar>\<rfloor>) @ ''.'' @
          str_nat (nat (\<lfloor>10 * \<bar>q\<bar>\<rfloor> mod 10)))"

definition demo_lib :: pylib where
  "demo_lib =
     \<lparr>parse_number = parse_decimal,
      float_str = print_float,
      int_of_str = (\<lambda>s. case parse_decimal s of Some (I i) \<Rightarrow> Some i | _ \<Rightarrow> None)\<rparr>"

definition finite_value :: "cell \<Rightarrow> rat option" where
  "finite_value c =
     (case c of Num (I i) \<Rightarrow> Some (of_int i) | Num (F (Fin q)) \<Rightarrow> Some q | _ \<Rightarrow> None)"

definition calendar_season :: "int \<Rightarrow> cell" where
  "calendar_season i =
     (if i \<in> {11, 12, 1, 2, 3, 4} then Str ''Wet''
      else if i \<in> {5, 6, 7, 8, 9, 10} then Str ''Dry''
      else Missing)"

text \<open>The season read from the season column alone, missing where there is none.\<close>

definition season_base :: "pylib \<Rightarrow> table \<Rightarrow> cell list" where
  "season_base L df =
     (if has_column df ''season'' then map (season_from_text L) (column df ''season'')
      else replicate (nrows df) Missing)"

text \<open>
  Instances of the statistical routines and of the system: routines that always
  return, two input files of given content under \<open>data\<close>, plotting and saving
  that succeed or raise as the two flags say, every other call succeeding.
\<close>

definition demo_scipy :: scipy where
  "demo_scipy =
     \<lparr>chi2_contingency = (\<lambda>ct. Inr (Some (Fin 0), Some (Fin 1),
          (int (length (row_labels ct)) - 1) * (int (length (col_labels ct)) - 1))),
      mannwhitneyu = (\<lambda>a b. Inr (Some (Fin 0), Some (Fin 1))),
      kruskal_h = (\<lambda>gs. Inr (Some (Fin 0), Some (Fin 1)))\<rparr>"

definition demo_sys :: "bool \<Rightarrow> bool \<Rightarrow> table \<Rightarrow> table \<Rightarrow> sys" where
  "demo_sys plots saves t1 t2 =
     \<lparr>read_csv = (\<lambda>p. if p = ''data/dataset1(1).csv'' then Inr t1
                      else if p = ''data/dataset2(1).csv'' then Inr t2
                      else Inl OSError),
      series_mean = (\<lambda>xs. None),
      plot_ok = (\<lambda>c. plots),
      makedirs_ok = (\<lambda>d. True),
      tight_layout_ok = True,
      savefig_ok = (\<lambda>p. saves),
      write_ok = (\<lambda>p. True)\<rparr>"

text \<open>
  The size of a risk subgroup in the words of the specification: the number of
  rows whose risk equals \<open>k\<close> and whose \<open>seconds_after_rat_arrival\<close> is not missing.
\<close>

definition group_size :: "table \<Rightarrow> int \<Rightarrow> nat" where
  "group_size df k =
     length (filter (\<lambda>i. num_equals (column df ''risk'' ! i) k \<and>
                          column df ''seconds_after_rat_arrival'' ! i \<noteq> Missing)
               [0..<nrows df])"

(*DEFS-END*)

section \<open>Properties\<close>

lemma floor_rat_numeral [simp]: "\<lfloor>numeral a / numeral b :: rat\<rfloor> = numeral a div numeral b"
  by (metis floor_divide_of_int_eq of_int_numeral)

lemma ceiling_rat_numeral [simp]: "\<lceil>- (numeral a / numeral b :: rat)\<rceil> = - (numeral a div numeral b)"
  using ceiling_divide_eq_div[of "- numeral a" "numeral b", where 'a = rat] by simp

lemma floor_rat_one_div [simp]: "\<lfloor>1 / numeral b :: rat\<rfloor> = 1 div numeral b"
  by (metis floor_divide_of_int_eq of_int_1 of_int_numeral)

lemma trunc_of_int [simp]: "trunc (of_int i) = i"
  by (simp add: trunc_def)

lemma trunc_bounds:
  "\<bar>of_int (trunc v)\<bar> \<le> \<bar>v\<bar> \<and> \<bar>v\<bar> < \<bar>of_int (trunc v)\<bar> + 1 \<and>
   (0 \<le> v \<longrightarrow> 0 \<le> trunc v) \<and> (v \<le> 0 \<longrightarrow> trunc v \<le> 0)"
proof (cases "0 \<le> v")
  case True
  then have "0 \<le> \<lfloor>v\<rfloor>" by simp
  moreover have "of_int \<lfloor>v\<rfloor> \<le> v" "v < of_int \<lfloor>v\<rfloor> + 1" by linarith+
  ultimately show ?thesis using True by (auto simp: trunc_def)
next
  case False
  then have "\<lceil>v\<rceil> \<le> 0" by (simp add: ceiling_le_iff)
  moreover have "v \<le> of_int \<lceil>v\<rceil>" "of_int \<lceil>v\<rceil> - 1 < v" by linarith+
  ultimately show ?thesis using False by (auto simp: trunc_def)
qed

lemma finite_value_cases:
  assumes "finite_value m = Some v"
  obtains i where "m = Num (I i)" "v = of_int i" | "m = Num (F (Fin v))"
  using assms by (auto simp: finite_value_def split: cell.splits number.splits fl.splits)

lemma dry_wet_finite:
  assumes "finite_value m = Some v"
  shows "dry_wet_from_month L m = Inr (calendar_season (trunc v))"
  using assms
  by (rule finite_value_cases)
     (simp_all add: dry_wet_from_month_def calendar_season_def isna_def)

text \<open>
  C1 (as amended). A missing month gives a missing season. A month with a finite
  value gives \<open>Wet\<close> when the value is one of 11, 12, 1, 2, 3, 4, \<open>Dry\<close> when it is
  one of 5 to 10, and a missing season when the value is below 1 or at least 13.
  A value strictly between 12 and 13 is truncated to 12 and gives \<open>Wet\<close>.
\<close>

theorem dry_wet_from_month_calendar:
  "dry_wet_from_month L Missing = Inr Missing \<and>
   (\<forall>m v. finite_value m = Some v \<longrightarrow>
      (v \<in> {11, 12, 1, 2, 3, 4} \<longrightarrow> dry_wet_from_month L m = Inr (Str ''Wet'')) \<and>
      (v \<in> {5, 6, 7, 8, 9, 10} \<longrightarrow> dry_wet_from_month L m = Inr (Str ''Dry'')) \<and>
      (v < 1 \<or> 13 \<le> v \<longrightarrow> dry_wet_from_month L m = Inr Missing) \<and>
      (12 < v \<and> v < 13 \<longrightarrow> dry_wet_from_month L m = Inr (Str ''Wet'')))"
proof (intro conjI allI impI)
  show "dry_wet_from_month L Missing = Inr Missing"
    by (simp add: dry_wet_from_month_def isna_def)
next
  fix m v assume fv: "finite_value m = Some v" and "v \<in> {11, 12, 1, 2, 3, 4}"
  then have "trunc v \<in> {11, 12, 1, 2, 3, 4}"
    by (auto simp: trunc_def)
  then show "dry_wet_from_month L m = Inr (Str ''Wet'')"
    by (simp add: dry_wet_finite [OF fv] calendar_season_def)
next
  fix m v assume fv: "finite_value m = Some v" and "v \<in> {5, 6, 7, 8, 9, 10}"
  then have "trunc v \<in> {5, 6, 7, 8, 9, 10}"
    by (auto simp: trunc_def)
  then show "dry_wet_from_month L m = Inr (Str ''Dry'')"
    by (auto simp add: dry_wet_finite [OF fv] calendar_season_def)
next
  fix m v assume fv: "finite_value m = Some v" and out: "v < 1 \<or> 13 \<le> v"
  have "trunc v < 1 \<or> 13 \<le> trunc v"
  proof (cases "v < 1")
    case True
    then have "trunc v < 1"
      by (auto simp: trunc_def floor_less_iff ceiling_less_iff)
    then show ?thesis by simp
  next
    case False
    with out have "13 \<le> v" by simp
    then have "13 \<le> trunc v" by (auto simp: trunc_def le_floor_iff)
    then show ?thesis by simp
  qed
  then show "dry_wet_from_month L m = Inr Missing"
    by (auto simp add: dry_wet_finite [OF fv] calendar_season_def)
next
  fix m v assume fv: "finite_value m = Some v" and "12 < v \<and> v < 13"
  then have "trunc v = 12"
    by (auto simp: trunc_def floor_eq_iff)
  then show "dry_wet_from_month L m = Inr (Str ''Wet'')"
    by (simp add: dry_wet_finite [OF fv] calendar_season_def)
qed

theorem dry_wet_from_month_calendar_witness:
  "finite_value (Num (I 12)) = Some 12 \<and> (12 :: rat) \<in> {11, 12, 1, 2, 3, 4} \<and>
   dry_wet_from_month demo_lib (Num (I 12)) = Inr (Str ''Wet'') \<and>
   finite_value (Num (F (Fin 7))) = Some 7 \<and> (7 :: rat) \<in> {5, 6, 7, 8, 9, 10} \<and>
   dry_wet_from_month demo_lib (Num (F (Fin 7))) = Inr (Str ''Dry'') \<and>
   finite_value (Num (I 0)) = Some 0 \<and> ((0 :: rat) < 1 \<or> (13 :: rat) \<le> 0) \<and>
   dry_wet_from_month demo_lib (Num (I 0)) = Inr Missing \<and>
   finite_value (Num (F (Fin (25 / 2)))) = Some (25 / 2) \<and> (12 :: rat) < 25 / 2 \<and>
   (25 / 2 :: rat) < 13 \<and>
   dry_wet_from_month demo_lib (Num (F (Fin (25 / 2)))) = Inr (Str ''Wet'')"
proof -
  note T = dry_wet_from_month_calendar [of demo_lib, THEN conjunct2, rule_format]
  have a: "finite_value (Num (I 12)) = Some 12" by (simp add: finite_value_def)
  have b: "finite_value (Num (F (Fin 7))) = Some 7" by (simp add: finite_value_def)
  have c: "finite_value (Num (I 0)) = Some 0" by (simp add: finite_value_def)
  have d: "finite_value (Num (F (Fin (25 / 2)))) = Some (25 / 2)" by (simp add: finite_value_def)
  show ?thesis
    using T [OF a, THEN conjunct1] T [OF b, THEN conjunct2, THEN conjunct1]
      T [OF c, THEN conjunct2, THEN conjunct2, THEN conjunct1]
      T [OF d, THEN conjunct2, THEN conjunct2, THEN conjunct2] a b c d
    by simp
qed

text \<open>
  C1 as stated fails: the month 12.5 lies outside 1 to 12, and its season is
  \<open>Wet\<close>, not missing.
\<close>

theorem dry_wet_from_month_above_12_counterexample:
  "\<not> (1 \<le> (25 / 2 :: rat) \<and> (25 / 2 :: rat) \<le> 12) \<and>
   dry_wet_from_month demo_lib (Num (F (Fin (25 / 2)))) = Inr (Str ''Wet'') \<and>
   dry_wet_from_month demo_lib (Num (F (Fin (25 / 2)))) \<noteq> Inr Missing"
  by (simp add: dry_wet_from_month_def isna_def trunc_def)

text \<open>
  C10. For every month value that is not missing, the season is determined by
  \<open>int(m)\<close>: it is the calendar season of that integer, and where \<open>int(m)\<close> raises
  (an infinite float, a text that is no integer) the exception is the result and
  there is no season. On a float \<open>int\<close> truncates toward zero: it gives the
  integer \<open>t\<close> of the same sign with \<open>|t| \<le> |v| < |t| + 1\<close>; on an integer it is the
  identity. So 4.9 gives \<open>Wet\<close>, 10.5 gives \<open>Dry\<close> and 0.5 gives a missing season.
\<close>

theorem dry_wet_from_month_truncates:
  "(\<forall>m. m \<noteq> Missing \<longrightarrow>
      dry_wet_from_month L m =
        (case py_int L m of Inl e \<Rightarrow> Inl e | Inr i \<Rightarrow> Inr (calendar_season i))) \<and>
   (\<forall>i. py_int L (Num (I i)) = Inr i) \<and>
   (\<forall>q. py_int L (Num (F (Fin q))) = Inr (trunc q)) \<and>
   py_int L (Num (F PInf)) = Inl OverflowError \<and>
   py_int L (Num (F NInf)) = Inl OverflowError \<and>
   (\<forall>m v. finite_value m = Some v \<longrightarrow>
      dry_wet_from_month L m = Inr (calendar_season (trunc v)) \<and>
      \<bar>of_int (trunc v)\<bar> \<le> \<bar>v\<bar> \<and> \<bar>v\<bar> < \<bar>of_int (trunc v)\<bar> + 1 \<and>
      (0 \<le> v \<longrightarrow> 0 \<le> trunc v) \<and> (v \<le> 0 \<longrightarrow> trunc v \<le> 0)) \<and>
   dry_wet_from_month L (Num (F (Fin (49 / 10)))) = Inr (Str ''Wet'') \<and>
   dry_wet_from_month L (Num (F (Fin (21 / 2)))) = Inr (Str ''Dry'') \<and>
   dry_wet_from_month L (Num (F (Fin (1 / 2)))) = Inr Missing"
proof (intro conjI allI impI)
  fix m :: cell assume "m \<noteq> Missing"
  then show "dry_wet_from_month L m =
      (case py_int L m of Inl e \<Rightarrow> Inl e | Inr i \<Rightarrow> Inr (calendar_season i))"
    by (simp add: dry_wet_from_month_def isna_def calendar_season_def split: sum.splits)
next
  fix m v assume fv: "finite_value m = Some v"
  show "dry_wet_from_month L m = Inr (calendar_season (trunc v))"
    by (rule dry_wet_finite [OF fv])
  show "\<bar>of_int (trunc v)\<bar> \<le> \<bar>v\<bar>" "\<bar>v\<bar> < \<bar>of_int (trunc v)\<bar> + 1"
    using trunc_bounds [of v] by simp_all
  { assume "0 \<le> v" then show "0 \<le> trunc v" using trunc_bounds [of v] by simp }
  { assume "v \<le> 0" then show "trunc v \<le> 0" using trunc_bounds [of v] by simp }
qed (simp_all add: dry_wet_from_month_def isna_def trunc_def)

theorem dry_wet_from_month_truncates_witness:
  "Num (F PInf) \<noteq> Missing \<and>
   dry_wet_from_month demo_lib (Num (F PInf)) = Inl OverflowError \<and>
   Str ''7'' \<noteq> Missing \<and>
   dry_wet_from_month demo_lib (Str ''7'') = Inr (Str ''Dry'') \<and>
   Str ''July'' \<noteq> Missing \<and>
   dry_wet_from_month demo_lib (Str ''July'') = Inl ValueError \<and>
   finite_value (Num (F (Fin (- (49 / 10))))) = Some (- (49 / 10)) \<and>
   trunc (- (49 / 10)) = - 4 \<and>
   dry_wet_from_month demo_lib (Num (F (Fin (- (49 / 10))))) = Inr Missing \<and>
   finite_value (Num (F (Fin (49 / 10)))) = Some (49 / 10) \<and>
   trunc (49 / 10) = 4 \<and>
   dry_wet_from_month demo_lib (Num (F (Fin (49 / 10)))) = Inr (Str ''Wet'')"
proof -
  note G = dry_wet_from_month_truncates [of demo_lib, THEN conjunct1, rule_format]
  note T = dry_wet_from_month_truncates [of demo_lib, THEN conjunct2, THEN conjunct2,
      THEN conjunct2, THEN conjunct2, THEN conjunct2, THEN conjunct1, rule_format, THEN conjunct1]
  have a: "finite_value (Num (F (Fin (- (49 / 10))))) = Some (- (49 / 10))"
    by (simp add: finite_value_def)
  have b: "finite_value (Num (F (Fin (49 / 10)))) = Some (49 / 10)"
    by (simp add: finite_value_def)
  have t: "trunc (- (49 / 10)) = - 4" "trunc (49 / 10) = 4" by (simp_all add: trunc_def)
  have s7: "int_of_str demo_lib ''7'' = Some 7"
    by (simp add: demo_lib_def parse_decimal_def parse_unsigned_def digit_of_def)
  have sj: "int_of_str demo_lib ''July'' = None"
    by (simp add: demo_lib_def parse_decimal_def parse_unsigned_def digit_of_def)
  show ?thesis
    using G [of "Num (F PInf)"] G [of "Str ''7''"] G [of "Str ''July''"] T [OF a] T [OF b] a b t
    by (simp add: calendar_season_def s7 sj)
qed

lemma has_column_set_column [simp]:
  "has_column (set_column df c xs) c' = (c' = c \<or> has_column df c')"
  by (simp add: has_column_def set_column_def update_conv')

lemma column_set_column [simp]:
  "column (set_column df c xs) c' = (if c' = c then xs else column df c')"
  by (simp add: column_def set_column_def update_conv')

lemma nrows_set_column [simp]: "nrows (set_column df c xs) = nrows df"
  by (simp add: set_column_def)

lemma has_column_drop_column [simp]:
  "has_column (drop_column df c) c' = (c' \<noteq> c \<and> has_column df c')"
  by (simp add: has_column_def drop_column_def delete_conv')

lemma column_drop_column [simp]:
  "column (drop_column df c) c' = (if c' = c then [] else column df c')"
  by (simp add: column_def drop_column_def delete_conv')

lemma nrows_drop_column [simp]: "nrows (drop_column df c) = nrows df"
  by (simp add: drop_column_def)

lemma names_set_column:
  "has_column df c \<Longrightarrow> map fst (columns (set_column df c xs)) = map fst (columns df)"
  by (auto simp: has_column_def set_column_def update_keys map_of_eq_None_iff)

lemma wf_table_column:
  assumes "wf_table df" "has_column df c"
  shows "length (column df c) = nrows df"
proof -
  from assms(2) obtain xs where xs: "map_of (columns df) c = Some xs"
    by (auto simp: has_column_def)
  then have "(c, xs) \<in> set (columns df)" by (rule map_of_SomeD)
  with assms(1) have "length xs = nrows df"
    by (auto simp: wf_table_def list_all_iff)
  with xs show ?thesis by (simp add: column_def)
qed

lemma set_alist_update: "set (AList.update k v al) \<subseteq> insert (k, v) (set al)"
  by (induction al) auto

lemma wf_table_set_column:
  "wf_table df \<Longrightarrow> length xs = nrows df \<Longrightarrow> wf_table (set_column df c xs)"
  using set_alist_update [of c xs "columns df"]
  by (auto simp: wf_table_def set_column_def list_all_iff)

lemma length_to_numeric [simp]: "length (to_numeric L xs) = length xs"
  by (simp add: to_numeric_def unify_dtype_def)

lemma to_numeric_cell_not_Str: "to_numeric_cell L c \<noteq> Str s"
  by (simp add: to_numeric_cell_def split: cell.splits option.splits)

lemma upcast_not_Str: "c \<noteq> Str s \<Longrightarrow> upcast c \<noteq> Str s"
  by (auto simp: upcast_def split: cell.splits number.splits)

lemma to_numeric_nth:
  "i < length xs \<Longrightarrow>
   to_numeric L xs ! i = to_numeric_cell L (xs ! i) \<or>
   to_numeric L xs ! i = upcast (to_numeric_cell L (xs ! i))"
  by (simp add: to_numeric_def unify_dtype_def)

lemma to_numeric_numeric:
  "x \<in> set (to_numeric L xs) \<Longrightarrow> x = Missing \<or> (\<exists>n. x = Num n)"
proof -
  assume "x \<in> set (to_numeric L xs)"
  then obtain c where "x = to_numeric_cell L c \<or> x = upcast (to_numeric_cell L c)"
    by (auto simp: to_numeric_def unify_dtype_def split: if_splits)
  then have "\<And>s. x \<noteq> Str s"
    by (metis to_numeric_cell_not_Str upcast_not_Str)
  then show ?thesis by (cases x) auto
qed

lemma to_numeric_cell_idem:
  "c \<noteq> Str s' \<Longrightarrow> \<forall>s. c \<noteq> Str s \<Longrightarrow> to_numeric_cell L c = c"
  by (cases c) (auto simp: to_numeric_cell_def)

lemma to_numeric_cell_fix: "(\<And>s. c \<noteq> Str s) \<Longrightarrow> to_numeric_cell L c = c"
  by (cases c) (auto simp: to_numeric_cell_def)

lemma upcast_idem [simp]: "upcast (upcast c) = upcast c"
  by (auto simp: upcast_def split: cell.splits number.splits)

lemma is_int_upcast: "is_int_cell (upcast c) = False"
  by (auto simp: upcast_def is_int_cell_def split: cell.splits number.splits)

lemma unify_dtype_idem: "unify_dtype (unify_dtype xs) = unify_dtype xs"
  by (cases xs) (auto simp: unify_dtype_def list_all_iff is_int_upcast)

lemma map_to_numeric_cell_fix:
  "(\<And>x s. x \<in> set xs \<Longrightarrow> x \<noteq> Str s) \<Longrightarrow> map (to_numeric_cell L) xs = xs"
  by (induction xs) (auto simp: to_numeric_cell_fix)

lemma to_numeric_idem: "to_numeric L (to_numeric L xs) = to_numeric L xs"
proof -
  have "map (to_numeric_cell L) (to_numeric L xs) = to_numeric L xs"
    by (rule map_to_numeric_cell_fix) (use to_numeric_numeric in blast)
  then show ?thesis
    by (simp add: to_numeric_def [of L "to_numeric L xs"])
       (simp add: to_numeric_def unify_dtype_idem)
qed

lemma coerce_numeric_nrows [simp]: "nrows (coerce_numeric L df cols) = nrows df"
  by (induction cols arbitrary: df) auto

lemma coerce_numeric_has_column [simp]:
  "has_column (coerce_numeric L df cols) c = has_column df c"
  by (induction cols arbitrary: df) auto

lemma coerce_numeric_names:
  "map fst (columns (coerce_numeric L df cols)) = map fst (columns df)"
  by (induction cols arbitrary: df) (auto simp: names_set_column)

lemma coerce_numeric_other:
  "c \<notin> set cols \<Longrightarrow> column (coerce_numeric L df cols) c = column df c"
  by (induction cols arbitrary: df) auto

lemma coerce_numeric_listed:
  "c \<in> set cols \<Longrightarrow> has_column df c \<Longrightarrow>
   column (coerce_numeric L df cols) c = to_numeric L (column df c)"
proof (induction cols arbitrary: df)
  case Nil
  then show ?case by simp
next
  case (Cons a cols)
  show ?case
  proof (cases "c \<in> set cols")
    case True
    then show ?thesis using Cons.prems Cons.IH by (auto simp: to_numeric_idem)
  next
    case False
    with Cons.prems have "a = c" by simp
    with False Cons.prems show ?thesis by (simp add: coerce_numeric_other)
  qed
qed

lemma coerce_numeric_wf: "wf_table df \<Longrightarrow> wf_table (coerce_numeric L df cols)"
  by (induction cols arbitrary: df) (auto simp: wf_table_set_column wf_table_column)

lemma to_numeric_entry:
  assumes "i < length xs"
  shows "(\<forall>s. xs ! i = Str s \<longrightarrow> parse_number L s = None \<longrightarrow> to_numeric L xs ! i = Missing) \<and>
         (\<forall>s n. xs ! i = Str s \<longrightarrow> parse_number L s = Some n \<longrightarrow>
            to_numeric L xs ! i \<in> {Num n, upcast (Num n)}) \<and>
         (xs ! i = Missing \<longrightarrow> to_numeric L xs ! i = Missing) \<and>
         (\<forall>n. xs ! i = Num n \<longrightarrow> to_numeric L xs ! i \<in> {Num n, upcast (Num n)})"
proof -
  have c: "to_numeric_cell L Missing = Missing" "\<And>n. to_numeric_cell L (Num n) = Num n"
    "\<And>s. to_numeric_cell L (Str s) =
       (case parse_number L s of None \<Rightarrow> Missing | Some n \<Rightarrow> Num n)"
    by (simp_all add: to_numeric_cell_def)
  have u: "upcast Missing = Missing" by (simp add: upcast_def)
  show ?thesis
    using to_numeric_nth [OF assms, of L]
    by (cases "xs ! i") (auto simp: c u)
qed

lemma to_numeric_example:
  assumes "parse_number L ''1'' = Some (I 1)" "parse_number L ''abc'' = None"
    "parse_number L ''3.5'' = Some (F (Fin (7 / 2)))" "parse_number L '''' = None"
  shows "to_numeric L [Str ''1'', Str ''abc'', Str ''3.5'', Str ''''] =
         [Num (F (Fin 1)), Missing, Num (F (Fin (7 / 2))), Missing]"
  using assms
  by (simp add: to_numeric_def unify_dtype_def to_numeric_cell_def is_int_cell_def upcast_def)

lemma column_nonempty_has_column: "column df c \<noteq> [] \<Longrightarrow> has_column df c"
  by (auto simp: column_def has_column_def split: option.splits)

text \<open>
  C3. For every table and list of names, \<open>coerce_numeric\<close> returns a table (the model
  has no error value: nothing is raised) with the same index and the same columns
  in the same order, so an absent name is skipped. A column that is not listed is
  unchanged. In a listed column that is present every entry becomes a number or the
  missing marker: a text that does not parse becomes missing, a text that parses
  becomes its number, a missing entry stays missing and a number keeps its value
  (an integer may become the float of the same value). With a parser that reads
  \<open>1\<close> and \<open>3.5\<close> and rejects \<open>abc\<close> and the empty text, the column
  \<open>["1", "abc", "3.5", ""]\<close> becomes \<open>[1.0, missing, 3.5, missing]\<close>.
\<close>

theorem coerce_numeric_spec:
  "(let df' = coerce_numeric L df cols in
    nrows df' = nrows df \<and>
    map fst (columns df') = map fst (columns df) \<and>
    (\<forall>c. c \<notin> set cols \<longrightarrow> column df' c = column df c) \<and>
    (\<forall>c \<in> set cols. has_column df c \<longrightarrow>
       length (column df' c) = length (column df c) \<and>
       (\<forall>x \<in> set (column df' c). x = Missing \<or> (\<exists>n. x = Num n)) \<and>
       (\<forall>i < length (column df c).
          (\<forall>s. column df c ! i = Str s \<longrightarrow> parse_number L s = None \<longrightarrow>
             column df' c ! i = Missing) \<and>
          (\<forall>s n. column df c ! i = Str s \<longrightarrow> parse_number L s = Some n \<longrightarrow>
             column df' c ! i \<in> {Num n, upcast (Num n)}) \<and>
          (column df c ! i = Missing \<longrightarrow> column df' c ! i = Missing) \<and>
          (\<forall>n. column df c ! i = Num n \<longrightarrow> column df' c ! i \<in> {Num n, upcast (Num n)}))) \<and>
    (\<forall>c \<in> set cols.
       column df c = [Str ''1'', Str ''abc'', Str ''3.5'', Str ''''] \<longrightarrow>
       parse_number L ''1'' = Some (I 1) \<longrightarrow> parse_number L ''abc'' = None \<longrightarrow>
       parse_number L ''3.5'' = Some (F (Fin (7 / 2))) \<longrightarrow> parse_number L '''' = None \<longrightarrow>
       column df' c = [Num (F (Fin 1)), Missing, Num (F (Fin (7 / 2))), Missing]))"
proof -
  define df' where "df' = coerce_numeric L df cols"
  have a: "nrows df' = nrows df" "map fst (columns df') = map fst (columns df)"
    by (simp_all add: df'_def coerce_numeric_names)
  have b: "\<forall>c. c \<notin> set cols \<longrightarrow> column df' c = column df c"
    by (simp add: df'_def coerce_numeric_other)
  have listed: "column df' c = to_numeric L (column df c)"
    if "c \<in> set cols" "has_column df c" for c
    using that by (simp add: df'_def coerce_numeric_listed)
  have c: "\<forall>c \<in> set cols. has_column df c \<longrightarrow>
       length (column df' c) = length (column df c) \<and>
       (\<forall>x \<in> set (column df' c). x = Missing \<or> (\<exists>n. x = Num n)) \<and>
       (\<forall>i < length (column df c).
          (\<forall>s. column df c ! i = Str s \<longrightarrow> parse_number L s = None \<longrightarrow>
             column df' c ! i = Missing) \<and>
          (\<forall>s n. column df c ! i = Str s \<longrightarrow> parse_number L s = Some n \<longrightarrow>
             column df' c ! i \<in> {Num n, upcast (Num n)}) \<and>
          (column df c ! i = Missing \<longrightarrow> column df' c ! i = Missing) \<and>
          (\<forall>n. column df c ! i = Num n \<longrightarrow> column df' c ! i \<in> {Num n, upcast (Num n)}))"
  proof (intro ballI impI conjI allI)
    fix c assume c: "c \<in> set cols" "has_column df c"
    show "length (column df' c) = length (column df c)"
      by (simp add: listed [OF c])
    show "x = Missing \<or> (\<exists>n. x = Num n)" if "x \<in> set (column df' c)" for x
      using that to_numeric_numeric [of x L "column df c"] by (simp add: listed [OF c])
    fix i assume i: "i < length (column df c)"
    note E = to_numeric_entry [OF i, of L, folded listed [OF c]]
    show "column df' c ! i = Missing"
      if "column df c ! i = Str s" "parse_number L s = None" for s
      using E that by blast
    show "column df' c ! i \<in> {Num n, upcast (Num n)}"
      if "column df c ! i = Str s" "parse_number L s = Some n" for s n
      using E that by blast
    show "column df' c ! i = Missing" if "column df c ! i = Missing"
      using E that by blast
    show "column df' c ! i \<in> {Num n, upcast (Num n)}" if "column df c ! i = Num n" for n
      using E that by blast
  qed
  have d: "\<forall>c \<in> set cols.
       column df c = [Str ''1'', Str ''abc'', Str ''3.5'', Str ''''] \<longrightarrow>
       parse_number L ''1'' = Some (I 1) \<longrightarrow> parse_number L ''abc'' = None \<longrightarrow>
       parse_number L ''3.5'' = Some (F (Fin (7 / 2))) \<longrightarrow> parse_number L '''' = None \<longrightarrow>
       column df' c = [Num (F (Fin 1)), Missing, Num (F (Fin (7 / 2))), Missing]"
  proof (intro ballI impI)
    fix c assume c: "c \<in> set cols"
      and col: "column df c = [Str ''1'', Str ''abc'', Str ''3.5'', Str '''']"
      and p: "parse_number L ''1'' = Some (I 1)" "parse_number L ''abc'' = None"
        "parse_number L ''3.5'' = Some (F (Fin (7 / 2)))" "parse_number L '''' = None"
    from col have "has_column df c" by (intro column_nonempty_has_column) simp
    then show "column df' c = [Num (F (Fin 1)), Missing, Num (F (Fin (7 / 2))), Missing]"
      using listed [OF c] col to_numeric_example [OF p] by simp
  qed
  from a b c d show ?thesis
    unfolding Let_def df'_def [symmetric] by blast
qed


lemma demo_lib_parses:
  "parse_number demo_lib ''1'' = Some (I 1)" "parse_number demo_lib ''abc'' = None"
  "parse_number demo_lib ''3.5'' = Some (F (Fin (7 / 2)))" "parse_number demo_lib [] = None"
  by (simp_all add: demo_lib_def parse_decimal_def parse_unsigned_def digit_of_def)

theorem coerce_numeric_spec_witness:
  "''risk'' \<in> set [''risk'', ''reward''] \<and>
   column \<lparr>nrows = 4, columns = [(''risk'', [Str ''1'', Str ''abc'', Str ''3.5'', Str '''']),
                                 (''note'', [Str ''a'', Str ''b'', Str ''c'', Str ''d''])]\<rparr>
     ''risk'' = [Str ''1'', Str ''abc'', Str ''3.5'', Str ''''] \<and>
   parse_number demo_lib ''1'' = Some (I 1) \<and> parse_number demo_lib ''abc'' = None \<and>
   parse_number demo_lib ''3.5'' = Some (F (Fin (7 / 2))) \<and> parse_number demo_lib '''' = None \<and>
   column (coerce_numeric demo_lib
     \<lparr>nrows = 4, columns = [(''risk'', [Str ''1'', Str ''abc'', Str ''3.5'', Str '''']),
                            (''note'', [Str ''a'', Str ''b'', Str ''c'', Str ''d''])]\<rparr>
     [''risk'', ''reward'']) ''risk'' = [Num (F (Fin 1)), Missing, Num (F (Fin (7 / 2))), Missing] \<and>
   map fst (columns (coerce_numeric demo_lib
     \<lparr>nrows = 4, columns = [(''risk'', [Str ''1'', Str ''abc'', Str ''3.5'', Str '''']),
                            (''note'', [Str ''a'', Str ''b'', Str ''c'', Str ''d''])]\<rparr>
     [''risk'', ''reward''])) = [''risk'', ''note'']"
proof -
  let ?df = "\<lparr>nrows = 4, columns = [(''risk'', [Str ''1'', Str ''abc'', Str ''3.5'', Str '''']),
                            (''note'', [Str ''a'', Str ''b'', Str ''c'', Str ''d''])]\<rparr>"
  note T = coerce_numeric_spec [of demo_lib ?df "[''risk'', ''reward'']", unfolded Let_def]
  have col: "column ?df ''risk'' = [Str ''1'', Str ''abc'', Str ''3.5'', Str '''']"
    by (simp add: column_def)
  have mem: "''risk'' \<in> set [''risk'', ''reward'']" by simp
  from T have "map fst (columns (coerce_numeric demo_lib ?df [''risk'', ''reward''])) =
      map fst (columns ?df)" by blast
  moreover from T have "\<forall>c \<in> set [''risk'', ''reward''].
       column ?df c = [Str ''1'', Str ''abc'', Str ''3.5'', Str ''''] \<longrightarrow>
       parse_number demo_lib ''1'' = Some (I 1) \<longrightarrow> parse_number demo_lib ''abc'' = None \<longrightarrow>
       parse_number demo_lib ''3.5'' = Some (F (Fin (7 / 2))) \<longrightarrow>
       parse_number demo_lib '''' = None \<longrightarrow>
       column (coerce_numeric demo_lib ?df [''risk'', ''reward'']) c =
         [Num (F (Fin 1)), Missing, Num (F (Fin (7 / 2))), Missing]" by blast
  then have "column (coerce_numeric demo_lib ?df [''risk'', ''reward'']) ''risk'' =
         [Num (F (Fin 1)), Missing, Num (F (Fin (7 / 2))), Missing]"
    using mem col demo_lib_parses by blast
  ultimately show ?thesis using col demo_lib_parses by simp
qed

declare coerce_numeric.simps [simp del]

lemma map_series_Inr:
  "map_series f xs = Inr ys \<Longrightarrow>
   length ys = length xs \<and> (\<forall>i < length xs. f (xs ! i) = Inr (ys ! i))"
proof (induction xs arbitrary: ys)
  case Nil
  then show ?case by simp
next
  case (Cons x xs)
  from Cons.prems obtain y ys' where y: "f x = Inr y" and ys': "map_series f xs = Inr ys'"
    and ys: "ys = y # ys'"
    by (auto split: sum.splits)
  from Cons.IH [OF ys'] y ys show ?case
    by (auto simp: nth_Cons split: nat.splits)
qed

lemma map_series_total:
  "(\<And>x. x \<in> set xs \<Longrightarrow> \<exists>y. f x = Inr y) \<Longrightarrow> \<exists>ys. map_series f xs = Inr ys"
proof (induction xs)
  case Nil
  then show ?case by simp
next
  case (Cons x xs)
  then obtain y ys where "f x = Inr y" "map_series f xs = Inr ys"
    by (metis list.set_intros)
  then show ?case by simp
qed

lemma dry_wet_from_month_range:
  "dry_wet_from_month L m = Inr y \<Longrightarrow> y \<in> {Str ''Dry'', Str ''Wet'', Missing}"
  by (auto simp: dry_wet_from_month_def split: if_splits sum.splits)

lemma season_from_text_range: "season_from_text L c \<in> {Str ''Dry'', Str ''Wet'', Missing}"
  by (auto simp: season_from_text_def season_codes_def split: option.splits if_splits)

lemma where_notna_nth:
  "i < length dw \<Longrightarrow> i < length other \<Longrightarrow>
   where_notna dw other ! i = (if dw ! i \<noteq> Missing then dw ! i else other ! i)"
  by (simp add: where_notna_def isna_def)

lemma where_notna_set: "set (where_notna dw other) \<subseteq> set dw \<union> set other"
  by (auto simp: where_notna_def) (meson set_zip_leftD set_zip_rightD)+

lemma length_where_notna [simp]:
  "length (where_notna dw other) = min (length dw) (length other)"
  by (simp add: where_notna_def)

lemma standardise_dataset1_Inr:
  assumes "standardise_dataset1 L df0 = Inr df'"
  defines "df \<equiv> coerce_numeric L df0
     [''risk'', ''reward'', ''seconds_after_rat_arrival'', ''hours_after_sunset'', ''month'']"
  shows "nrows df' = nrows df0"
    and "has_column df' c \<longleftrightarrow> c = ''season'' \<or> (c \<noteq> ''season_dw'' \<and> has_column df0 c)"
    and "c \<noteq> ''season'' \<Longrightarrow> c \<noteq> ''season_dw'' \<Longrightarrow> column df' c = column df c"
    and "\<not> has_column df0 ''month'' \<Longrightarrow> column df' ''season'' = season_base L df0"
    and "has_column df0 ''month'' \<Longrightarrow>
         \<exists>dw. map_series (dry_wet_from_month L) (column df ''month'') = Inr dw \<and>
              column df' ''season'' = where_notna dw (season_base L df0)"
proof -
  have s: "column df ''season'' = column df0 ''season''" "has_column df c = has_column df0 c" for c
    by (simp_all add: df_def coerce_numeric_other)
  have n: "nrows df = nrows df0" by (simp add: df_def)
  have b: "season_base L df = season_base L df0"
    by (simp add: season_base_def s n)
  note ss = standardise_dataset1_def Let_def df_def [symmetric] set_scalar_def season_base_def
  from assms(1) show "nrows df' = nrows df0"
    by (auto simp: ss n split: if_splits sum.splits)
  from assms(1) show "has_column df' c \<longleftrightarrow> c = ''season'' \<or> (c \<noteq> ''season_dw'' \<and> has_column df0 c)"
    by (auto simp: ss s split: if_splits sum.splits)
  from assms(1) show "column df' c = column df c" if "c \<noteq> ''season''" "c \<noteq> ''season_dw''"
    using that by (auto simp: ss split: if_splits sum.splits)
  from assms(1) show "column df' ''season'' = season_base L df0" if "\<not> has_column df0 ''month''"
    using that by (auto simp: ss s n split: if_splits sum.splits)
  from assms(1) show "\<exists>dw. map_series (dry_wet_from_month L) (column df ''month'') = Inr dw \<and>
              column df' ''season'' = where_notna dw (season_base L df0)"
    if "has_column df0 ''month''"
    using that by (auto simp: ss s n split: if_splits sum.splits)
qed

lemma standardise_dataset1_total:
  assumes "\<And>x. x \<in> set (column (coerce_numeric L df0
     [''risk'', ''reward'', ''seconds_after_rat_arrival'', ''hours_after_sunset'', ''month''])
       ''month'') \<Longrightarrow> x \<noteq> Num (F PInf) \<and> x \<noteq> Num (F NInf)"
  shows "\<exists>df'. standardise_dataset1 L df0 = Inr df'"
proof -
  let ?df = "coerce_numeric L df0
     [''risk'', ''reward'', ''seconds_after_rat_arrival'', ''hours_after_sunset'', ''month'']"
  have "\<exists>y. dry_wet_from_month L x = Inr y" if "x \<in> set (column ?df ''month'')" for x
  proof (cases "has_column df0 ''month''")
    case True
    then have "column ?df ''month'' = to_numeric L (column df0 ''month'')"
      by (simp add: coerce_numeric_listed)
    with that have "x = Missing \<or> (\<exists>n. x = Num n)"
      using to_numeric_numeric by simp
    moreover have "x \<noteq> Num (F PInf)" "x \<noteq> Num (F NInf)" using assms that by auto
    ultimately consider "x = Missing" | i where "x = Num (I i)" | q where "x = Num (F (Fin q))"
      by (metis fl.exhaust number.exhaust)
    then show ?thesis
      by cases (simp_all add: dry_wet_from_month_def isna_def)
  next
    case False
    then have "\<not> has_column ?df ''month''" by simp
    then have "column ?df ''month'' = []"
      by (simp add: column_def has_column_def)
    with that show ?thesis by simp
  qed
  then obtain dw where "map_series (dry_wet_from_month L) (column ?df ''month'') = Inr dw"
    using map_series_total by blast
  then show ?thesis
    by (simp add: standardise_dataset1_def Let_def set_scalar_def)
qed

lemma map_series_range:
  assumes "map_series f xs = Inr ys" "\<And>x y. f x = Inr y \<Longrightarrow> y \<in> A"
  shows "set ys \<subseteq> A"
proof
  fix y assume "y \<in> set ys"
  then obtain i where "i < length ys" "ys ! i = y" by (auto simp: in_set_conv_nth)
  with map_series_Inr [OF assms(1)] have "f (xs ! i) = Inr y" by auto
  then show "y \<in> A" by (rule assms(2))
qed

lemma season_base_range: "set (season_base L df) \<subseteq> {Str ''Dry'', Str ''Wet'', Missing}"
  using season_from_text_range by (auto simp: season_base_def)

text \<open>
  C9. When \<open>standardise_dataset1\<close> returns, the table has a \<open>season\<close> column whose
  entries are \<open>Dry\<close>, \<open>Wet\<close> or missing, the derivation column \<open>season_dw\<close> is not in
  the table, and the columns are those of the input (without \<open>season_dw\<close>) and
  \<open>season\<close>.
\<close>

theorem standardise_dataset1_season_values:
  "standardise_dataset1 L df0 = Inr df' \<Longrightarrow>
   has_column df' ''season'' \<and>
   set (column df' ''season'') \<subseteq> {Str ''Dry'', Str ''Wet'', Missing} \<and>
   \<not> has_column df' ''season_dw'' \<and>
   (\<forall>c. has_column df' c \<longleftrightarrow> c = ''season'' \<or> (c \<noteq> ''season_dw'' \<and> has_column df0 c))"
proof -
  assume r: "standardise_dataset1 L df0 = Inr df'"
  note R = standardise_dataset1_Inr [OF r]
  have cols: "\<forall>c. has_column df' c \<longleftrightarrow> c = ''season'' \<or> (c \<noteq> ''season_dw'' \<and> has_column df0 c)"
    using R(2) by blast
  have "set (column df' ''season'') \<subseteq> {Str ''Dry'', Str ''Wet'', Missing}"
  proof (cases "has_column df0 ''month''")
    case False
    then show ?thesis using R(4) season_base_range by simp
  next
    case True
    from R(5) [OF True] obtain dw where
      dw: "map_series (dry_wet_from_month L)
             (column (coerce_numeric L df0 [''risk'', ''reward'', ''seconds_after_rat_arrival'',
                ''hours_after_sunset'', ''month'']) ''month'') = Inr dw"
      and s: "column df' ''season'' = where_notna dw (season_base L df0)"
      by blast
    have "set dw \<subseteq> {Str ''Dry'', Str ''Wet'', Missing}"
      using dw dry_wet_from_month_range by (rule map_series_range)
    then show ?thesis
      unfolding s
      using where_notna_set [of dw "season_base L df0"] season_base_range [of L df0] by blast
  qed
  with cols show ?thesis by simp
qed

lemma trunc_numeral [simp]: "trunc (numeral k) = numeral k"
  by (simp add: trunc_def)

lemma finite_value_upcast [simp]: "finite_value (upcast c) = finite_value c"
  by (auto simp: finite_value_def upcast_def split: cell.splits number.splits fl.splits)

lemma to_numeric_finite_value:
  assumes "i < length xs" "finite_value (xs ! i) = Some v"
  shows "finite_value (to_numeric L xs ! i) = Some v"
proof -
  from assms(2) obtain n where n: "xs ! i = Num n"
    by (auto simp: finite_value_def split: cell.splits)
  with to_numeric_entry [OF assms(1), of L]
  have "to_numeric L xs ! i \<in> {Num n, upcast (Num n)}" by blast
  with assms(2) n show ?thesis by auto
qed

text \<open>
  C2. When \<open>standardise_dataset1\<close> returns on a table with a \<open>month\<close> and a \<open>season\<close>
  column, the season of every row is the season derived from its (coerced) month
  when that is not missing, and otherwise the season read from its season entry.
  In particular a row with the season text \<open>dry\<close> and the month 12 gets \<open>Wet\<close>.
\<close>

theorem standardise_dataset1_month_precedence:
  "standardise_dataset1 L df0 = Inr df' \<Longrightarrow> wf_table df0 \<Longrightarrow>
   has_column df0 ''month'' \<Longrightarrow> has_column df0 ''season'' \<Longrightarrow> i < nrows df0 \<Longrightarrow>
   (\<exists>dw. dry_wet_from_month L (to_numeric L (column df0 ''month'') ! i) = Inr dw \<and>
         column df' ''season'' ! i =
           (if dw \<noteq> Missing then dw else season_from_text L (column df0 ''season'' ! i))) \<and>
   (column df0 ''season'' ! i = Str ''dry'' \<and>
    finite_value (column df0 ''month'' ! i) = Some 12 \<longrightarrow>
    column df' ''season'' ! i = Str ''Wet'')"
proof -
  assume r: "standardise_dataset1 L df0 = Inr df'" and wf: "wf_table df0"
    and m: "has_column df0 ''month''" and s: "has_column df0 ''season''" and i: "i < nrows df0"
  let ?month = "to_numeric L (column df0 ''month'')"
  have lm: "length (column df0 ''month'') = nrows df0"
    and ls: "length (column df0 ''season'') = nrows df0"
    using wf m s by (simp_all add: wf_table_column)
  have cm: "column (coerce_numeric L df0 [''risk'', ''reward'', ''seconds_after_rat_arrival'',
                ''hours_after_sunset'', ''month'']) ''month'' = ?month"
    using m by (simp add: coerce_numeric_listed)
  from standardise_dataset1_Inr(5) [OF r m] obtain dw where
    dw: "map_series (dry_wet_from_month L) ?month = Inr dw"
    and res: "column df' ''season'' = where_notna dw (season_base L df0)"
    unfolding cm by blast
  from map_series_Inr [OF dw] i lm
  have ldw: "length dw = nrows df0" and dwi: "dry_wet_from_month L (?month ! i) = Inr (dw ! i)"
    by simp_all
  have base: "season_base L df0 ! i = season_from_text L (column df0 ''season'' ! i)"
    "length (season_base L df0) = nrows df0"
    using s i ls by (simp_all add: season_base_def)
  have row: "column df' ''season'' ! i =
      (if dw ! i \<noteq> Missing then dw ! i else season_from_text L (column df0 ''season'' ! i))"
    using res where_notna_nth [of i dw "season_base L df0"] ldw base i by simp
  have ex: "column df' ''season'' ! i = Str ''Wet''"
    if "column df0 ''season'' ! i = Str ''dry''"
      "finite_value (column df0 ''month'' ! i) = Some 12"
  proof -
    have "finite_value (?month ! i) = Some 12"
      using that(2) i lm by (simp add: to_numeric_finite_value)
    then have "dry_wet_from_month L (?month ! i) = Inr (Str ''Wet'')"
      by (simp add: dry_wet_finite calendar_season_def)
    with dwi have "dw ! i = Str ''Wet''" by simp
    with row show ?thesis by simp
  qed
  from dwi row ex show ?thesis by blast
qed

lemmas eval_defs = standardise_dataset1_def coerce_numeric.simps Let_def has_column_def
  column_def set_column_def set_scalar_def drop_column_def to_numeric_def unify_dtype_def
  to_numeric_cell_def is_int_cell_def upcast_def season_from_text_def season_codes_def
  py_str_def strip_def lower_def lower_char_def is_space_def str_int_def
  dry_wet_from_month_def isna_def where_notna_def trunc_def
  demo_lib_def parse_decimal_def parse_unsigned_def digit_of_def print_float_def

lemma demo_run1:
  "standardise_dataset1 demo_lib
     \<lparr>nrows = 3, columns = [(''season'', [Str ''dry'', Str '' WET '', Num (I 0)]),
                            (''month'', [Str ''12'', Str ''x'', Num (F (Fin (13 / 2)))]),
                            (''risk'', [Str ''0'', Str ''1'', Str ''1''])]\<rparr> =
   Inr \<lparr>nrows = 3, columns = [(''season'', [Str ''Wet'', Str ''Wet'', Str ''Dry'']),
                              (''month'', [Num (F (Fin 12)), Missing, Num (F (Fin (13 / 2)))]),
                              (''risk'', [Num (I 0), Num (I 1), Num (I 1)])]\<rparr>"
  by (simp add: eval_defs)

lemma demo_run2:
  "standardise_dataset1 demo_lib
     \<lparr>nrows = 2, columns = [(''season'', [Str ''dry'', Str ''wet'']),
                            (''month'', [Num (I 12), Missing])]\<rparr> =
   Inr \<lparr>nrows = 2, columns = [(''season'', [Str ''Wet'', Str ''Wet'']),
                              (''month'', [Num (F (Fin 12)), Missing])]\<rparr>"
  by (simp add: eval_defs)

theorem standardise_dataset1_season_values_witness:
  "standardise_dataset1 demo_lib
     \<lparr>nrows = 3, columns = [(''season'', [Str ''dry'', Str '' WET '', Num (I 0)]),
                            (''month'', [Str ''12'', Str ''x'', Num (F (Fin (13 / 2)))]),
                            (''risk'', [Str ''0'', Str ''1'', Str ''1''])]\<rparr> =
   Inr \<lparr>nrows = 3, columns = [(''season'', [Str ''Wet'', Str ''Wet'', Str ''Dry'']),
                              (''month'', [Num (F (Fin 12)), Missing, Num (F (Fin (13 / 2)))]),
                              (''risk'', [Num (I 0), Num (I 1), Num (I 1)])]\<rparr> \<and>
   has_column \<lparr>nrows = 3, columns = [(''season'', [Str ''Wet'', Str ''Wet'', Str ''Dry'']),
                              (''month'', [Num (F (Fin 12)), Missing, Num (F (Fin (13 / 2)))]),
                              (''risk'', [Num (I 0), Num (I 1), Num (I 1)])]\<rparr> ''season'' \<and>
   set (column \<lparr>nrows = 3, columns = [(''season'', [Str ''Wet'', Str ''Wet'', Str ''Dry'']),
                              (''month'', [Num (F (Fin 12)), Missing, Num (F (Fin (13 / 2)))]),
                              (''risk'', [Num (I 0), Num (I 1), Num (I 1)])]\<rparr> ''season'')
     \<subseteq> {Str ''Dry'', Str ''Wet'', Missing} \<and>
   \<not> has_column \<lparr>nrows = 3, columns = [(''season'', [Str ''Wet'', Str ''Wet'', Str ''Dry'']),
                              (''month'', [Num (F (Fin 12)), Missing, Num (F (Fin (13 / 2)))]),
                              (''risk'', [Num (I 0), Num (I 1), Num (I 1)])]\<rparr> ''season_dw''"
  using standardise_dataset1_season_values [OF demo_run1] demo_run1 by blast

theorem standardise_dataset1_month_precedence_witness:
  "standardise_dataset1 demo_lib
     \<lparr>nrows = 2, columns = [(''season'', [Str ''dry'', Str ''wet'']),
                            (''month'', [Num (I 12), Missing])]\<rparr> =
   Inr \<lparr>nrows = 2, columns = [(''season'', [Str ''Wet'', Str ''Wet'']),
                              (''month'', [Num (F (Fin 12)), Missing])]\<rparr> \<and>
   wf_table \<lparr>nrows = 2, columns = [(''season'', [Str ''dry'', Str ''wet'']),
                                   (''month'', [Num (I 12), Missing])]\<rparr> \<and>
   has_column \<lparr>nrows = 2, columns = [(''season'', [Str ''dry'', Str ''wet'']),
                                     (''month'', [Num (I 12), Missing])]\<rparr> ''month'' \<and>
   has_column \<lparr>nrows = 2, columns = [(''season'', [Str ''dry'', Str ''wet'']),
                                     (''month'', [Num (I 12), Missing])]\<rparr> ''season'' \<and>
   (0 :: nat) < nrows \<lparr>nrows = 2, columns = [(''season'', [Str ''dry'', Str ''wet'']),
                                             (''month'', [Num (I 12), Missing])]\<rparr> \<and>
   column \<lparr>nrows = 2, columns = [(''season'', [Str ''dry'', Str ''wet'']),
                                 (''month'', [Num (I 12), Missing])]\<rparr> ''season'' ! 0 = Str ''dry'' \<and>
   finite_value (column \<lparr>nrows = 2, columns = [(''season'', [Str ''dry'', Str ''wet'']),
                                 (''month'', [Num (I 12), Missing])]\<rparr> ''month'' ! 0) = Some 12 \<and>
   column \<lparr>nrows = 2, columns = [(''season'', [Str ''Wet'', Str ''Wet'']),
                                 (''month'', [Num (F (Fin 12)), Missing])]\<rparr> ''season'' ! 0 = Str ''Wet''"
proof -
  let ?t = "\<lparr>nrows = 2, columns = [(''season'', [Str ''dry'', Str ''wet'']),
                                   (''month'', [Num (I 12), Missing])]\<rparr>"
  have wf: "wf_table ?t" by (simp add: wf_table_def)
  have m: "has_column ?t ''month''" and s: "has_column ?t ''season''"
    by (simp_all add: has_column_def)
  have i: "(0 :: nat) < nrows ?t" by simp
  have a: "column ?t ''season'' ! 0 = Str ''dry''"
    and b: "finite_value (column ?t ''month'' ! 0) = Some 12"
    by (simp_all add: column_def finite_value_def)
  from standardise_dataset1_month_precedence [OF demo_run2 wf m s i] a b
  have "column \<lparr>nrows = 2, columns = [(''season'', [Str ''Wet'', Str ''Wet'']),
           (''month'', [Num (F (Fin 12)), Missing])]\<rparr> ''season'' ! 0 = Str ''Wet''"
    by blast
  with demo_run2 wf m s i a b show ?thesis by blast
qed

text \<open>
  C8 (as amended). When making the directory, the layout pass and the save all
  succeed, \<open>safe_savefig\<close> returns, the file is written and one figure fewer is
  open. When one of them raises, the exception is the result, no file is written
  and no figure is closed: a figure that was open is still open.
\<close>

theorem safe_savefig_closes_on_success:
  "(makedirs_ok Y (dirname path) \<and> tight_layout_ok Y \<and> savefig_ok Y path \<longrightarrow>
      fst (safe_savefig Y path w) = Inr () \<and>
      figures (snd (safe_savefig Y path w)) = figures w - 1 \<and>
      files (snd (safe_savefig Y path w)) = files w @ [path]) \<and>
   (\<not> (makedirs_ok Y (dirname path) \<and> tight_layout_ok Y \<and> savefig_ok Y path) \<longrightarrow>
      (\<exists>e. fst (safe_savefig Y path w) = Inl e) \<and>
      figures w \<le> figures (snd (safe_savefig Y path w)) \<and>
      (0 < figures w \<longrightarrow> figures (snd (safe_savefig Y path w)) = figures w) \<and>
      files (snd (safe_savefig Y path w)) = files w)"
  by (auto simp: safe_savefig_def Let_def gcf_def plt_close_def)

theorem safe_savefig_closes_on_success_witness:
  "makedirs_ok (demo_sys True True \<lparr>nrows = 0, columns = []\<rparr> \<lparr>nrows = 0, columns = []\<rparr>)
     (dirname ''figures/a.png'') \<and>
   tight_layout_ok (demo_sys True True \<lparr>nrows = 0, columns = []\<rparr> \<lparr>nrows = 0, columns = []\<rparr>) \<and>
   savefig_ok (demo_sys True True \<lparr>nrows = 0, columns = []\<rparr> \<lparr>nrows = 0, columns = []\<rparr>)
     ''figures/a.png'' \<and>
   fst (safe_savefig (demo_sys True True \<lparr>nrows = 0, columns = []\<rparr> \<lparr>nrows = 0, columns = []\<rparr>)
     ''figures/a.png'' \<lparr>figures = 1, files = [], dirs = []\<rparr>) = Inr () \<and>
   figures (snd (safe_savefig
     (demo_sys True True \<lparr>nrows = 0, columns = []\<rparr> \<lparr>nrows = 0, columns = []\<rparr>)
     ''figures/a.png'' \<lparr>figures = 1, files = [], dirs = []\<rparr>)) = 0 \<and>
   \<not> (makedirs_ok (demo_sys True False \<lparr>nrows = 0, columns = []\<rparr> \<lparr>nrows = 0, columns = []\<rparr>)
        (dirname ''figures/a.png'') \<and>
      tight_layout_ok (demo_sys True False \<lparr>nrows = 0, columns = []\<rparr> \<lparr>nrows = 0, columns = []\<rparr>) \<and>
      savefig_ok (demo_sys True False \<lparr>nrows = 0, columns = []\<rparr> \<lparr>nrows = 0, columns = []\<rparr>)
        ''figures/a.png'') \<and>
   (0 :: nat) < figures \<lparr>figures = 1, files = [], dirs = []\<rparr> \<and>
   figures (snd (safe_savefig
     (demo_sys True False \<lparr>nrows = 0, columns = []\<rparr> \<lparr>nrows = 0, columns = []\<rparr>)
     ''figures/a.png'' \<lparr>figures = 1, files = [], dirs = []\<rparr>)) = 1"
  using safe_savefig_closes_on_success
     [of "demo_sys True True \<lparr>nrows = 0, columns = []\<rparr> \<lparr>nrows = 0, columns = []\<rparr>"
         "''figures/a.png''" "\<lparr>figures = 1, files = [], dirs = []\<rparr>"]
    safe_savefig_closes_on_success
     [of "demo_sys True False \<lparr>nrows = 0, columns = []\<rparr> \<lparr>nrows = 0, columns = []\<rparr>"
         "''figures/a.png''" "\<lparr>figures = 1, files = [], dirs = []\<rparr>"]
  by (simp add: demo_sys_def)

text \<open>
  C8 as stated fails: when the save raises, the figure that was open before the
  call is still open after it.
\<close>

theorem safe_savefig_failing_save_counterexample:
  "safe_savefig (demo_sys True False \<lparr>nrows = 0, columns = []\<rparr> \<lparr>nrows = 0, columns = []\<rparr>)
     ''figures/a.png'' \<lparr>figures = 1, files = [], dirs = []\<rparr> =
   (Inl OSError, \<lparr>figures = 1, files = [], dirs = [''figures'']\<rparr>) \<and>
   figures (snd (safe_savefig
     (demo_sys True False \<lparr>nrows = 0, columns = []\<rparr> \<lparr>nrows = 0, columns = []\<rparr>)
     ''figures/a.png'' \<lparr>figures = 1, files = [], dirs = []\<rparr>)) \<noteq> 0"
  by (simp add: safe_savefig_def demo_sys_def dirname_def gcf_def Let_def)

text \<open>
  C7. A Dataset A with a \<open>risk\<close> column and neither \<open>month\<close> nor \<open>season\<close>:
  standardisation returns, and the season is missing in every row. The table has
  a \<open>season\<close> column all the same, so the gate of the plot of risk by season is
  open: when plotting succeeds the file \<open>risk_by_season.png\<close> is produced, when
  plotting raises the run ends with that error, and whatever the plotting library
  does, one of the two happens.
\<close>

theorem make_figures_season_plot_without_season:
  "standardise_dataset1 demo_lib \<lparr>nrows = 2, columns = [(''risk'', [Str ''0'', Str ''1''])]\<rparr> =
     Inr \<lparr>nrows = 2, columns = [(''risk'', [Num (I 0), Num (I 1)]),
                                (''season'', [Missing, Missing])]\<rparr> \<and>
   has_columns \<lparr>nrows = 2, columns = [(''risk'', [Num (I 0), Num (I 1)]),
                                      (''season'', [Missing, Missing])]\<rparr> [''season'', ''risk''] \<and>
   make_figures
     (demo_sys True True \<lparr>nrows = 2, columns = [(''risk'', [Str ''0'', Str ''1''])]\<rparr>
        \<lparr>nrows = 0, columns = []\<rparr>)
     \<lparr>nrows = 2, columns = [(''risk'', [Num (I 0), Num (I 1)]), (''season'', [Missing, Missing])]\<rparr>
     \<lparr>nrows = 0, columns = []\<rparr> ''data/figures'' \<lparr>figures = 0, files = [], dirs = []\<rparr> =
   (Inr (), \<lparr>figures = 0, files = [''data/figures/risk_by_season.png''],
             dirs = [''data/figures'']\<rparr>) \<and>
   make_figures
     (demo_sys False True \<lparr>nrows = 2, columns = [(''risk'', [Str ''0'', Str ''1''])]\<rparr>
        \<lparr>nrows = 0, columns = []\<rparr>)
     \<lparr>nrows = 2, columns = [(''risk'', [Num (I 0), Num (I 1)]), (''season'', [Missing, Missing])]\<rparr>
     \<lparr>nrows = 0, columns = []\<rparr> ''data/figures'' \<lparr>figures = 0, files = [], dirs = []\<rparr> =
   (Inl LibraryError, \<lparr>figures = 0, files = [], dirs = []\<rparr>) \<and>
   (\<forall>Y. (\<exists>e. fst (make_figures Y
             \<lparr>nrows = 2, columns = [(''risk'', [Num (I 0), Num (I 1)]),
                                    (''season'', [Missing, Missing])]\<rparr>
             \<lparr>nrows = 0, columns = []\<rparr> ''data/figures''
             \<lparr>figures = 0, files = [], dirs = []\<rparr>) = Inl e) \<or>
        ''data/figures/risk_by_season.png'' \<in> set (files (snd (make_figures Y
             \<lparr>nrows = 2, columns = [(''risk'', [Num (I 0), Num (I 1)]),
                                    (''season'', [Missing, Missing])]\<rparr>
             \<lparr>nrows = 0, columns = []\<rparr> ''data/figures''
             \<lparr>figures = 0, files = [], dirs = []\<rparr>))))"
proof (intro conjI allI)
  show "standardise_dataset1 demo_lib \<lparr>nrows = 2, columns = [(''risk'', [Str ''0'', Str ''1''])]\<rparr> =
     Inr \<lparr>nrows = 2, columns = [(''risk'', [Num (I 0), Num (I 1)]),
                                (''season'', [Missing, Missing])]\<rparr>"
    by (simp add: eval_defs numeral_2_eq_2)
next
  fix Y
  show "(\<exists>e. fst (make_figures Y
             \<lparr>nrows = 2, columns = [(''risk'', [Num (I 0), Num (I 1)]),
                                    (''season'', [Missing, Missing])]\<rparr>
             \<lparr>nrows = 0, columns = []\<rparr> ''data/figures''
             \<lparr>figures = 0, files = [], dirs = []\<rparr>) = Inl e) \<or>
        ''data/figures/risk_by_season.png'' \<in> set (files (snd (make_figures Y
             \<lparr>nrows = 2, columns = [(''risk'', [Num (I 0), Num (I 1)]),
                                    (''season'', [Missing, Missing])]\<rparr>
             \<lparr>nrows = 0, columns = []\<rparr> ''data/figures''
             \<lparr>figures = 0, files = [], dirs = []\<rparr>)))"
    by (simp add: make_figures_def figure_block_def and_then_def plot_def safe_savefig_def
        has_columns_def has_column_def column_def path_join_def dirname_def gcf_def
        plt_close_def Let_def)
qed (simp_all add: make_figures_def figure_block_def and_then_def plot_def safe_savefig_def
        has_columns_def has_column_def column_def path_join_def dirname_def gcf_def
        plt_close_def Let_def demo_sys_def)

lemma notna_pairs_zip:
  "Missing \<notin> set a \<Longrightarrow> Missing \<notin> set b \<Longrightarrow> notna_pairs a b = zip a b"
  unfolding notna_pairs_def isna_def
  by (rule filter_True) (auto dest: set_zip_leftD set_zip_rightD)

lemma sum_count_pairs_fst:
  "finite C \<Longrightarrow> snd ` set ps \<subseteq> C \<Longrightarrow>
   (\<Sum>c\<in>C. count_list ps (r, c)) = count_list (map fst ps) r"
proof (induction ps)
  case Nil
  then show ?case by simp
next
  case (Cons p ps)
  obtain x y where p: "p = (x, y)" by (cases p)
  with Cons.prems have y: "y \<in> C" by simp
  have "(\<Sum>c\<in>C. count_list (p # ps) (r, c)) =
        (\<Sum>c\<in>C. count_list ps (r, c) + (if c = y then (if x = r then 1 else 0) else 0))"
    by (rule sum.cong) (auto simp: p)
  also have "\<dots> = (\<Sum>c\<in>C. count_list ps (r, c)) + (if x = r then 1 else 0)"
    using Cons.prems(1) y by (simp add: sum.distrib)
  also have "\<dots> = count_list (map fst (p # ps)) r"
    using Cons by (simp add: p)
  finally show ?case .
qed

lemma sum_count_pairs_snd:
  "finite R \<Longrightarrow> fst ` set ps \<subseteq> R \<Longrightarrow>
   (\<Sum>r\<in>R. count_list ps (r, c)) = count_list (map snd ps) c"
proof (induction ps)
  case Nil
  then show ?case by simp
next
  case (Cons p ps)
  obtain x y where p: "p = (x, y)" by (cases p)
  with Cons.prems have x: "x \<in> R" by simp
  have "(\<Sum>r\<in>R. count_list (p # ps) (r, c)) =
        (\<Sum>r\<in>R. count_list ps (r, c) + (if r = x then (if y = c then 1 else 0) else 0))"
    by (rule sum.cong) (auto simp: p)
  also have "\<dots> = (\<Sum>r\<in>R. count_list ps (r, c)) + (if y = c then 1 else 0)"
    using Cons.prems(1) x by (simp add: sum.distrib)
  also have "\<dots> = count_list (map snd (p # ps)) c"
    using Cons by (simp add: p)
  finally show ?case .
qed

lemma sum_list_remdups: "sum_list (map f (remdups xs)) = sum f (set xs)"
  using sum_list_distinct_conv_sum_set [of "remdups xs" f] by simp

lemma row_total_crosstab:
  "row_total (crosstab a b) r = count_list (map fst (notna_pairs a b)) r"
  by (simp add: row_total_def crosstab_def Let_def sum_list_remdups sum_count_pairs_fst)

lemma col_total_crosstab:
  "col_total (crosstab a b) c = count_list (map snd (notna_pairs a b)) c"
  by (simp add: col_total_def crosstab_def Let_def sum_list_remdups sum_count_pairs_snd)

lemma labels_crosstab [simp]:
  "row_labels (crosstab a b) = remdups (map fst (notna_pairs a b))"
  "col_labels (crosstab a b) = remdups (map snd (notna_pairs a b))"
  by (simp_all add: crosstab_def Let_def)

lemma sum_row_totals:
  "sum_list (map (row_total (crosstab a b)) (row_labels (crosstab a b))) =
   length (notna_pairs a b)"
proof -
  have "sum_list (map (row_total (crosstab a b)) (row_labels (crosstab a b))) =
        sum (count_list (map fst (notna_pairs a b))) (set (map fst (notna_pairs a b)))"
    by (simp add: row_total_crosstab sum_list_remdups)
  also have "\<dots> = length (map fst (notna_pairs a b))"
    by (rule sum_count_set) simp_all
  finally show ?thesis by simp
qed

lemma sum_col_totals:
  "sum_list (map (col_total (crosstab a b)) (col_labels (crosstab a b))) =
   length (notna_pairs a b)"
proof -
  have "sum_list (map (col_total (crosstab a b)) (col_labels (crosstab a b))) =
        sum (count_list (map snd (notna_pairs a b))) (set (map snd (notna_pairs a b)))"
    by (simp add: col_total_crosstab sum_list_remdups)
  also have "\<dots> = length (map snd (notna_pairs a b))"
    by (rule sum_count_set) simp_all
  finally show ?thesis by simp
qed

lemma length_fillna [simp]: "length (fillna v xs) = length xs"
  by (simp add: fillna_def Let_def)

lemma upcast_Missing [simp]:
  "upcast c = Missing \<longleftrightarrow> c = Missing" "Missing = upcast c \<longleftrightarrow> c = Missing"
  by (auto simp: upcast_def split: cell.splits number.splits)

lemma fillna_notna: "Missing \<notin> set (fillna v xs)"
  by (auto simp: fillna_def Let_def isna_def split: if_splits)

lemma fillna_nth:
  "i < length xs \<Longrightarrow>
   fillna v xs ! i =
     (if xs ! i = Missing then upcast (Num v)
      else if list_all is_int_cell xs then xs ! i else upcast (xs ! i))"
  by (auto simp: fillna_def Let_def isna_def list_all_length is_int_cell_def)

lemma finite_value_Missing [simp]: "finite_value Missing = None"
  by (simp add: finite_value_def)


lemma fillna_entry:
  assumes "i < length xs"
  shows "(xs ! i = Missing \<longrightarrow> finite_value (fillna (I (- 1)) xs ! i) = Some (- 1)) \<and>
         (xs ! i \<noteq> Missing \<longrightarrow>
            fillna (I (- 1)) xs ! i = xs ! i \<or> fillna (I (- 1)) xs ! i = upcast (xs ! i))"
  using assms by (simp add: fillna_nth) (simp add: finite_value_def)

lemma fillna_sentinel_iff:
  assumes "i < length xs" "\<forall>x\<in>set xs. finite_value x \<noteq> Some (- 1)"
  shows "finite_value (fillna (I (- 1)) xs ! i) = Some (- 1) \<longleftrightarrow> xs ! i = Missing"
proof (cases "xs ! i = Missing")
  case True
  then show ?thesis using fillna_entry [OF assms(1)] by simp
next
  case False
  then have "finite_value (fillna (I (- 1)) xs ! i) = finite_value (xs ! i)"
    using fillna_entry [OF assms(1)] by auto
  moreover have "finite_value (xs ! i) \<noteq> Some (- 1)"
    using assms by simp
  ultimately show ?thesis using False by simp
qed

lemma chi2_step_Inr:
  "has_columns d1 [''risk'', ''reward''] \<Longrightarrow> chi2_step S d1 t = Inr t' \<Longrightarrow>
   \<exists>chi2 p dof. t' ''risk_vs_reward_chi2'' =
     Some (Chi2Result chi2 p dof (crosstab (fillna (I (- 1)) (column d1 ''risk''))
                                          (fillna (I (- 1)) (column d1 ''reward''))))"
  by (auto simp: chi2_step_def chi_square_def Let_def split: sum.splits prod.splits)

text \<open>
  C4 (as amended). When the association test runs on a table with the columns
  \<open>risk\<close> and \<open>reward\<close>, each missing entry of the two columns is replaced by the
  value \<open>-1\<close> and every other entry keeps its value, no row is left out of the
  contingency table, each row total (column total) is the number of rows of the
  table with that risk (reward) value, and the row totals as well as the column
  totals add up to the number of rows. The value \<open>-1\<close> marks exactly the missing
  entries of a column when no entry of that column has the value \<open>-1\<close>.
\<close>

theorem chi2_step_counts_every_row:
  "wf_table d1 \<Longrightarrow> has_columns d1 [''risk'', ''reward''] \<Longrightarrow> chi2_step S d1 t = Inr t' \<Longrightarrow>
   (let a = fillna (I (- 1)) (column d1 ''risk'');
        b = fillna (I (- 1)) (column d1 ''reward'');
        ct = crosstab a b
    in (\<exists>chi2 p dof. t' ''risk_vs_reward_chi2'' = Some (Chi2Result chi2 p dof ct)) \<and>
       length a = nrows d1 \<and> length b = nrows d1 \<and>
       Missing \<notin> set a \<and> Missing \<notin> set b \<and>
       notna_pairs a b = zip a b \<and>
       (\<forall>i<nrows d1.
          (column d1 ''risk'' ! i = Missing \<longrightarrow> finite_value (a ! i) = Some (- 1)) \<and>
          (column d1 ''risk'' ! i \<noteq> Missing \<longrightarrow>
             a ! i = column d1 ''risk'' ! i \<or> a ! i = upcast (column d1 ''risk'' ! i)) \<and>
          (column d1 ''reward'' ! i = Missing \<longrightarrow> finite_value (b ! i) = Some (- 1)) \<and>
          (column d1 ''reward'' ! i \<noteq> Missing \<longrightarrow>
             b ! i = column d1 ''reward'' ! i \<or> b ! i = upcast (column d1 ''reward'' ! i))) \<and>
       ((\<forall>x\<in>set (column d1 ''risk''). finite_value x \<noteq> Some (- 1)) \<longrightarrow>
          (\<forall>i<nrows d1. finite_value (a ! i) = Some (- 1) \<longleftrightarrow>
                          column d1 ''risk'' ! i = Missing)) \<and>
       ((\<forall>x\<in>set (column d1 ''reward''). finite_value x \<noteq> Some (- 1)) \<longrightarrow>
          (\<forall>i<nrows d1. finite_value (b ! i) = Some (- 1) \<longleftrightarrow>
                          column d1 ''reward'' ! i = Missing)) \<and>
       (\<forall>r. row_total ct r = count_list a r) \<and>
       (\<forall>c. col_total ct c = count_list b c) \<and>
       sum_list (map (row_total ct) (row_labels ct)) = nrows d1 \<and>
       sum_list (map (col_total ct) (col_labels ct)) = nrows d1)"
proof -
  assume wf: "wf_table d1" and hc: "has_columns d1 [''risk'', ''reward'']"
    and run: "chi2_step S d1 t = Inr t'"
  define a where "a = fillna (I (- 1)) (column d1 ''risk'')"
  define b where "b = fillna (I (- 1)) (column d1 ''reward'')"
  from hc have h: "has_column d1 ''risk''" "has_column d1 ''reward''"
    by (simp_all add: has_columns_def)
  have lr: "length (column d1 ''risk'') = nrows d1"
    and lw: "length (column d1 ''reward'') = nrows d1"
    using wf h by (simp_all add: wf_table_column)
  have la: "length a = nrows d1" and lb: "length b = nrows d1"
    by (simp_all add: a_def b_def lr lw)
  have na: "Missing \<notin> set a" and nb: "Missing \<notin> set b"
    by (simp_all add: a_def b_def fillna_notna)
  have z: "notna_pairs a b = zip a b"
    using na nb by (rule notna_pairs_zip)
  have res: "\<exists>chi2 p dof. t' ''risk_vs_reward_chi2'' = Some (Chi2Result chi2 p dof (crosstab a b))"
    unfolding a_def b_def using hc run by (rule chi2_step_Inr)
  have ent: "\<forall>i<nrows d1.
          (column d1 ''risk'' ! i = Missing \<longrightarrow> finite_value (a ! i) = Some (- 1)) \<and>
          (column d1 ''risk'' ! i \<noteq> Missing \<longrightarrow>
             a ! i = column d1 ''risk'' ! i \<or> a ! i = upcast (column d1 ''risk'' ! i)) \<and>
          (column d1 ''reward'' ! i = Missing \<longrightarrow> finite_value (b ! i) = Some (- 1)) \<and>
          (column d1 ''reward'' ! i \<noteq> Missing \<longrightarrow>
             b ! i = column d1 ''reward'' ! i \<or> b ! i = upcast (column d1 ''reward'' ! i))"
    unfolding a_def b_def
    using fillna_entry [of _ "column d1 ''risk''"] fillna_entry [of _ "column d1 ''reward''"] lr lw
    by simp
  have sa: "(\<forall>x\<in>set (column d1 ''risk''). finite_value x \<noteq> Some (- 1)) \<longrightarrow>
          (\<forall>i<nrows d1. finite_value (a ! i) = Some (- 1) \<longleftrightarrow> column d1 ''risk'' ! i = Missing)"
    unfolding a_def using fillna_sentinel_iff [of _ "column d1 ''risk''"] lr by simp
  have sb: "(\<forall>x\<in>set (column d1 ''reward''). finite_value x \<noteq> Some (- 1)) \<longrightarrow>
          (\<forall>i<nrows d1. finite_value (b ! i) = Some (- 1) \<longleftrightarrow> column d1 ''reward'' ! i = Missing)"
    unfolding b_def using fillna_sentinel_iff [of _ "column d1 ''reward''"] lw by simp
  have rt: "\<forall>r. row_total (crosstab a b) r = count_list a r"
    by (simp add: row_total_crosstab z la lb)
  have ctt: "\<forall>c. col_total (crosstab a b) c = count_list b c"
    by (simp add: col_total_crosstab z la lb)
  have sr: "sum_list (map (row_total (crosstab a b)) (row_labels (crosstab a b))) = nrows d1"
    by (simp only: sum_row_totals z) (simp add: la lb)
  have sc: "sum_list (map (col_total (crosstab a b)) (col_labels (crosstab a b))) = nrows d1"
    by (simp only: sum_col_totals z) (simp add: la lb)
  from res la lb na nb z ent sa sb rt ctt sr sc show ?thesis
    unfolding Let_def a_def [symmetric] b_def [symmetric] by blast
qed

lemma demo_chi2_step:
  "chi2_step demo_scipy
     \<lparr>nrows = 3, columns = [(''risk'', [Num (F (Fin 0)), Missing, Num (F (Fin 1))]),
                            (''reward'', [Num (I 1), Num (I 0), Num (I 1)])]\<rparr> Map.empty =
   Inr [''risk_vs_reward_chi2'' \<mapsto> Chi2Result (Some (Fin 0)) (Some (Fin 1)) 2
          (crosstab (fillna (I (- 1)) [Num (F (Fin 0)), Missing, Num (F (Fin 1))])
                    (fillna (I (- 1)) [Num (I 1), Num (I 0), Num (I 1)]))]"
  by (simp add: chi2_step_def chi_square_def has_columns_def has_column_def column_def
      demo_scipy_def Let_def notna_pairs_def fillna_def isna_def is_int_cell_def upcast_def)

theorem chi2_step_counts_every_row_witness:
  "wf_table \<lparr>nrows = 3, columns = [(''risk'', [Num (F (Fin 0)), Missing, Num (F (Fin 1))]),
                                   (''reward'', [Num (I 1), Num (I 0), Num (I 1)])]\<rparr> \<and>
   has_columns \<lparr>nrows = 3, columns = [(''risk'', [Num (F (Fin 0)), Missing, Num (F (Fin 1))]),
                                      (''reward'', [Num (I 1), Num (I 0), Num (I 1)])]\<rparr>
     [''risk'', ''reward''] \<and>
   chi2_step demo_scipy
     \<lparr>nrows = 3, columns = [(''risk'', [Num (F (Fin 0)), Missing, Num (F (Fin 1))]),
                            (''reward'', [Num (I 1), Num (I 0), Num (I 1)])]\<rparr> Map.empty =
   Inr [''risk_vs_reward_chi2'' \<mapsto> Chi2Result (Some (Fin 0)) (Some (Fin 1)) 2
          (crosstab (fillna (I (- 1)) [Num (F (Fin 0)), Missing, Num (F (Fin 1))])
                    (fillna (I (- 1)) [Num (I 1), Num (I 0), Num (I 1)]))] \<and>
   fillna (I (- 1)) [Num (F (Fin 0)), Missing, Num (F (Fin 1))] =
     [Num (F (Fin 0)), Num (F (Fin (- 1))), Num (F (Fin 1))] \<and>
   sum_list (map (row_total
       (crosstab (fillna (I (- 1)) [Num (F (Fin 0)), Missing, Num (F (Fin 1))])
                 (fillna (I (- 1)) [Num (I 1), Num (I 0), Num (I 1)])))
     (row_labels
       (crosstab (fillna (I (- 1)) [Num (F (Fin 0)), Missing, Num (F (Fin 1))])
                 (fillna (I (- 1)) [Num (I 1), Num (I 0), Num (I 1)])))) = 3 \<and>
   sum_list (map (col_total
       (crosstab (fillna (I (- 1)) [Num (F (Fin 0)), Missing, Num (F (Fin 1))])
                 (fillna (I (- 1)) [Num (I 1), Num (I 0), Num (I 1)])))
     (col_labels
       (crosstab (fillna (I (- 1)) [Num (F (Fin 0)), Missing, Num (F (Fin 1))])
                 (fillna (I (- 1)) [Num (I 1), Num (I 0), Num (I 1)])))) = 3"
proof -
  let ?d = "\<lparr>nrows = 3, columns = [(''risk'', [Num (F (Fin 0)), Missing, Num (F (Fin 1))]),
                                   (''reward'', [Num (I 1), Num (I 0), Num (I 1)])]\<rparr>"
  have wf: "wf_table ?d" by (simp add: wf_table_def)
  have hc: "has_columns ?d [''risk'', ''reward'']" by (simp add: has_columns_def has_column_def)
  have f: "fillna (I (- 1)) [Num (F (Fin 0)), Missing, Num (F (Fin 1))] =
     [Num (F (Fin 0)), Num (F (Fin (- 1))), Num (F (Fin 1))]"
    by (simp add: fillna_def Let_def isna_def is_int_cell_def upcast_def)
  have c: "column ?d ''risk'' = [Num (F (Fin 0)), Missing, Num (F (Fin 1))]"
    "column ?d ''reward'' = [Num (I 1), Num (I 0), Num (I 1)]"
    by (simp_all add: column_def)
  let ?ct = "crosstab (fillna (I (- 1)) [Num (F (Fin 0)), Missing, Num (F (Fin 1))])
                     (fillna (I (- 1)) [Num (I 1), Num (I 0), Num (I 1)])"
  note T = chi2_step_counts_every_row [OF wf hc demo_chi2_step, unfolded Let_def c]
  from T have "sum_list (map (row_total ?ct) (row_labels ?ct)) = nrows ?d" by blast
  then have sr: "sum_list (map (row_total ?ct) (row_labels ?ct)) = 3" by simp
  from T have "sum_list (map (col_total ?ct) (col_labels ?ct)) = nrows ?d" by blast
  then have sc: "sum_list (map (col_total ?ct) (col_labels ?ct)) = 3" by simp
  show ?thesis
    by (intro conjI) (rule wf hc demo_chi2_step f sr sc)+
qed

text \<open>
  C4 as stated fails: in a risk column with the entries \<open>-1\<close>, missing and \<open>1\<close>
  the missing entry becomes \<open>-1\<close>, the value of the first row, and the two rows
  are counted in one cell of the table.
\<close>

theorem fillna_sentinel_collides_counterexample:
  "fillna (I (- 1)) [Num (F (Fin (- 1))), Missing, Num (F (Fin 1))] =
     [Num (F (Fin (- 1))), Num (F (Fin (- 1))), Num (F (Fin 1))] \<and>
   row_labels (crosstab (fillna (I (- 1)) [Num (F (Fin (- 1))), Missing, Num (F (Fin 1))])
                        (fillna (I (- 1)) [Num (I 0), Num (I 0), Num (I 1)])) =
     [Num (F (Fin (- 1))), Num (F (Fin 1))] \<and>
   freq (crosstab (fillna (I (- 1)) [Num (F (Fin (- 1))), Missing, Num (F (Fin 1))])
                  (fillna (I (- 1)) [Num (I 0), Num (I 0), Num (I 1)]))
     (Num (F (Fin (- 1)))) (Num (I 0)) = 2"
  by (simp add: crosstab_def notna_pairs_def fillna_def Let_def isna_def is_int_cell_def
      upcast_def)

end
